theory Spec2Isabelle
  imports Complex_Main
begin

section \<open>Values, exceptions and callables\<close>

text \<open>
  The module \<^verbatim>\<open>google/gax/api_callable.py\<close> builds an API call out of a bare rpc
  callable by wrapping it in decorators. The embedding keeps the decorators as
  higher-order functions. Everything the module only imports (the clock, the random
  number generator, the bare rpc, the error classifier, the bundling executor) is a
  parameter; the outside world those collaborators act on is a state of type \<open>'w\<close> that
  is passed through every call.

  Python numbers are floats. A float is a rational here, and an arithmetic operation
  gives the exact result rounded to a float by the function \<open>fl\<close> of the runtime, as
  IEEE 754 prescribes for \<^verbatim>\<open>+\<close>, \<^verbatim>\<open>-\<close>, \<^verbatim>\<open>*\<close> and \<^verbatim>\<open>/\<close> (the source runs with true
  division, \<^verbatim>\<open>from __future__ import division\<close>). Comparisons and \<^verbatim>\<open>min\<close> are exact.
  Infinities and NaN are left out.
\<close>

datatype pyval = PNone | PInt int | PStr string | PList "pyval list"

text \<open>Python truthiness, as \<^verbatim>\<open>not next_page_token\<close> and \<^verbatim>\<open>if codes\<close> use it.\<close>

fun truthy :: "pyval \<Rightarrow> bool" where
  "truthy PNone = False"
| "truthy (PInt n) = (n \<noteq> 0)"
| "truthy (PStr s) = (s \<noteq> [])"
| "truthy (PList xs) = (xs \<noteq> [])"

text \<open>A request or response object: its attributes by name.\<close>

type_synonym message = "string \<rightharpoonup> pyval"

text \<open>
  Exceptions. \<open>Other e\<close> is any other exception of the collaborators that is an instance
  of \<^verbatim>\<open>Exception\<close> (a transport error, say). \<open>KeyboardInterrupt\<close>, \<open>SystemExit\<close> and
  \<open>GeneratorExit\<close> are the built-in exceptions that are not instances of
  \<^verbatim>\<open>Exception\<close>. \<open>RetryError\<close> and \<open>GaxError\<close> carry a message and an optional cause.
  \<open>IOError\<close> is what \<^verbatim>\<open>time.sleep\<close> raises on a negative length.
\<close>

datatype 'e exn =
    Other 'e
  | KeyboardInterrupt
  | SystemExit
  | GeneratorExit
  | RetryError string "'e exn option"
  | GaxError string "'e exn option"
  | ValueError string
  | AttributeError
  | TypeError
  | IndexError
  | IOError

text \<open>What \<^verbatim>\<open>except Exception\<close> catches: \<^verbatim>\<open>isinstance(e, Exception)\<close>.\<close>

fun is_Exception :: "'e exn \<Rightarrow> bool" where
  "is_Exception KeyboardInterrupt = False"
| "is_Exception SystemExit = False"
| "is_Exception GeneratorExit = False"
| "is_Exception _ = True"

text \<open>
  A callable takes positional arguments and keyword arguments, acts on the world and
  either raises (\<open>Inl\<close>) or returns (\<open>Inr\<close>); \<open>None\<close> means that it does not return
  at all. The bare rpc takes the timeout as its final positional argument.
\<close>

type_synonym ('a, 'k, 'e, 'r, 'w) callable =
  "'a list \<Rightarrow> 'k \<Rightarrow> 'w \<Rightarrow> (('e exn + 'r) \<times> 'w) option"

type_synonym ('a, 'k, 'e, 'r, 'w) rpc =
  "'a list \<Rightarrow> rat \<Rightarrow> 'k \<Rightarrow> 'w \<Rightarrow> (('e exn + 'r) \<times> 'w) option"

text \<open>
  The Python runtime. The three library functions the retry loop calls:
  \<^verbatim>\<open>time.time()\<close> reads the clock of the world, \<^verbatim>\<open>time.sleep(s)\<close> changes the world,
  \<^verbatim>\<open>random.uniform(a, b)\<close> returns a number and changes the world (the generator's
  state). And the rounding of float arithmetic: \<open>fl x\<close> is the float that the exact
  result \<open>x\<close> of an operation is rounded to.
\<close>

record 'w runtime =
  fl :: "rat \<Rightarrow> rat"
  time_time :: "'w \<Rightarrow> rat"
  time_sleep :: "rat \<Rightarrow> 'w \<Rightarrow> 'w"
  random_uniform :: "rat \<Rightarrow> rat \<Rightarrow> 'w \<Rightarrow> rat \<times> 'w"

section \<open>Settings\<close>

record backoff_settings =
  initial_retry_delay_millis :: rat
  retry_delay_multiplier :: rat
  max_retry_delay_millis :: rat
  initial_rpc_timeout_millis :: rat
  rpc_timeout_multiplier :: rat
  max_rpc_timeout_millis :: rat
  total_timeout_millis :: rat

text \<open>
  \<^verbatim>\<open>_construct_retry\<close> builds \<^verbatim>\<open>RetryOptions(retry_codes=codes, backoff_settings=None)\<close>
  for a method without \<^verbatim>\<open>retry_params_name\<close>, so the backoff settings are optional.
\<close>

record 'c retry_options =
  retry_codes :: "'c list"
  backoff_settings :: "backoff_settings option"

record page_descriptor =
  request_page_token_field :: string
  response_page_token_field :: string
  resource_field :: string

text \<open>
  Of a \<^verbatim>\<open>BundleDescriptor\<close> the module reads one attribute only; the class itself is
  declared in the package's \<^verbatim>\<open>__init__\<close>.
\<close>

record bundle_descriptor =
  request_discriminator_fields :: "string list"

definition MILLIS_PER_SECOND :: rat where
  "MILLIS_PER_SECOND = 1000"

section \<open>The timeout decorator\<close>

definition add_timeout_arg ::
  "('a, 'k, 'e, 'r, 'w) rpc \<Rightarrow> rat \<Rightarrow> ('a, 'k, 'e, 'r, 'w) callable" where
  "add_timeout_arg a_func timeout = (\<lambda>args kw. a_func args timeout kw)"

section \<open>The retry decorator\<close>

text \<open>
  The values \<^verbatim>\<open>_retryable\<close> computes once, before it defines \<^verbatim>\<open>inner\<close>
  (lines 82 to 89 of the source).
\<close>

definition delay_mult :: "backoff_settings \<Rightarrow> rat" where
  "delay_mult bs = retry_delay_multiplier bs"

definition max_delay :: "'w runtime \<Rightarrow> backoff_settings \<Rightarrow> rat" where
  "max_delay sys bs = fl sys (max_retry_delay_millis bs / MILLIS_PER_SECOND)"

definition timeout_mult :: "backoff_settings \<Rightarrow> rat" where
  "timeout_mult bs = rpc_timeout_multiplier bs"

definition max_timeout :: "'w runtime \<Rightarrow> backoff_settings \<Rightarrow> rat" where
  "max_timeout sys bs = fl sys (max_rpc_timeout_millis bs / MILLIS_PER_SECOND)"

definition total_timeout :: "'w runtime \<Rightarrow> backoff_settings \<Rightarrow> rat" where
  "total_timeout sys bs = fl sys (total_timeout_millis bs / MILLIS_PER_SECOND)"

text \<open>
  What one invocation of \<^verbatim>\<open>inner\<close> did, in order: \<open>Call t\<close> is an invocation of the
  wrapped callable with timeout \<open>t\<close>, \<open>Failed e\<close> the exception it raised, \<open>Sleep s\<close> a
  call of \<^verbatim>\<open>time.sleep(s)\<close>. The trace is bookkeeping of the model: the code does
  not read it.
\<close>

datatype 'e event = Call rat | Failed "'e exn" | Sleep rat

text \<open>The local variables of \<^verbatim>\<open>inner\<close>, with the world and the trace.\<close>

record ('e, 'w) retry_state =
  delay :: rat
  timeout :: rat
  exc :: "'e exn"
  now :: rat
  world :: 'w
  trace :: "'e event list"

type_synonym ('e, 'r, 'w) finished = "('e exn + 'r) \<times> 'w \<times> 'e event list"

text \<open>
  One pass through the body of \<^verbatim>\<open>while now < deadline\<close> (lines 106 to 126): \<open>Inl\<close> when
  the pass leaves \<^verbatim>\<open>inner\<close> (by \<^verbatim>\<open>return\<close> or by an exception), \<open>Inr\<close> with the
  updated variables when it reaches \<^verbatim>\<open>continue\<close>. The handler is
  \<^verbatim>\<open>except Exception\<close>: an exception that is not an instance of \<^verbatim>\<open>Exception\<close> leaves
  \<^verbatim>\<open>inner\<close> as it is, neither classified nor wrapped.
\<close>

definition retry_body ::
  "'w runtime \<Rightarrow> ('e exn \<Rightarrow> 'c) \<Rightarrow> ('a, 'k, 'e, 'r, 'w) rpc \<Rightarrow> 'c list \<Rightarrow> backoff_settings \<Rightarrow>
   'a list \<Rightarrow> 'k \<Rightarrow> rat \<Rightarrow> ('e, 'w) retry_state \<Rightarrow>
   (('e, 'r, 'w) finished + ('e, 'w) retry_state) option" where
  "retry_body sys exc_to_code a_func codes bs args kwargs deadline s =
     (case add_timeout_arg a_func (timeout s) args kwargs (world s) of
        None \<Rightarrow> None
      | Some (Inr response, w1) \<Rightarrow> Some (Inl (Inr response, w1, trace s @ [Call (timeout s)]))
      | Some (Inl exception, w1) \<Rightarrow>
          (let tr1 = trace s @ [Call (timeout s), Failed exception] in
           if \<not> is_Exception exception then Some (Inl (Inl exception, w1, tr1))
           else if exc_to_code exception \<notin> set codes then
             Some (Inl (Inl (RetryError
               ''Exception occurred in retry method that was not classified as transient''
               (Some exception)), w1, tr1))
           else
             (let exc' = RetryError ''Retry total timeout exceeded with exception''
                           (Some exception);
                  (to_sleep, w2) = random_uniform sys 0 (delay s) w1;
                  secs = fl sys (to_sleep / MILLIS_PER_SECOND)
              in if secs < 0 then Some (Inl (Inl IOError, w2, tr1))
                 else
                   (let w3 = time_sleep sys secs w2;
                        now' = time_time sys w3;
                        delay' = min (fl sys (delay s * delay_mult bs)) (max_delay sys bs);
                        timeout' = min (min (fl sys (timeout s * timeout_mult bs))
                                            (max_timeout sys bs))
                                       (fl sys (deadline - now'))
                    in Some (Inr \<lparr>delay = delay', timeout = timeout', exc = exc',
                                  now = now', world = w3, trace = tr1 @ [Sleep secs]\<rparr>)))))"

text \<open>
  The loop of \<^verbatim>\<open>inner\<close> (lines 105 to 128). It ends only when the clock passes the
  deadline or a pass leaves the function, so it is a partial function: \<open>None\<close> is a
  loop that runs forever, or a wrapped callable that never returns.
\<close>

partial_function (option) retry_while ::
  "'w runtime \<Rightarrow> ('e exn \<Rightarrow> 'c) \<Rightarrow> ('a, 'k, 'e, 'r, 'w) rpc \<Rightarrow> 'c list \<Rightarrow> backoff_settings \<Rightarrow>
   'a list \<Rightarrow> 'k \<Rightarrow> rat \<Rightarrow> ('e, 'w) retry_state \<Rightarrow> ('e, 'r, 'w) finished option" where
  "retry_while sys exc_to_code a_func codes bs args kwargs deadline s =
     (if now s < deadline then
        (case retry_body sys exc_to_code a_func codes bs args kwargs deadline s of
           None \<Rightarrow> None
         | Some (Inl fin) \<Rightarrow> Some fin
         | Some (Inr s') \<Rightarrow> retry_while sys exc_to_code a_func codes bs args kwargs deadline s')
      else Some (Inl (exc s), world s, trace s))"

declare retry_while.simps [code]

text \<open>
  \<^verbatim>\<open>inner\<close> of \<^verbatim>\<open>_retryable\<close>, returning the trace along with the outcome and the
  world. The message of the first \<^verbatim>\<open>RetryError\<close> is the concatenation of the two
  adjacent string literals of the source, which leave no space between them.
\<close>

definition retry_start :: "'w runtime \<Rightarrow> backoff_settings \<Rightarrow> 'w \<Rightarrow> ('e, 'w) retry_state" where
  "retry_start sys bs w =
     \<lparr>delay = initial_retry_delay_millis bs,
      timeout = fl sys (initial_rpc_timeout_millis bs / MILLIS_PER_SECOND),
      exc = RetryError ''Retry total timeout exceeded before anyresponse was received'' None,
      now = time_time sys w,
      world = w,
      trace = []\<rparr>"

definition retryable_inner ::
  "'w runtime \<Rightarrow> ('e exn \<Rightarrow> 'c) \<Rightarrow> ('a, 'k, 'e, 'r, 'w) rpc \<Rightarrow> 'c list \<Rightarrow> backoff_settings \<Rightarrow>
   'a list \<Rightarrow> 'k \<Rightarrow> 'w \<Rightarrow> ('e, 'r, 'w) finished option" where
  "retryable_inner sys exc_to_code a_func codes bs args kwargs w =
     (let s = retry_start sys bs w;
          deadline = fl sys (now s + total_timeout sys bs)
      in retry_while sys exc_to_code a_func codes bs args kwargs deadline s)"

text \<open>
  The callable \<^verbatim>\<open>_retryable\<close> returns: \<^verbatim>\<open>inner\<close> without the bookkeeping.
\<close>

definition retryable_call ::
  "'w runtime \<Rightarrow> ('e exn \<Rightarrow> 'c) \<Rightarrow> ('a, 'k, 'e, 'r, 'w) rpc \<Rightarrow> 'c list \<Rightarrow> backoff_settings \<Rightarrow>
   ('a, 'k, 'e, 'r, 'w) callable" where
  "retryable_call sys exc_to_code a_func codes bs =
     (\<lambda>args kwargs w.
        map_option (\<lambda>(res, w', tr). (res, w'))
          (retryable_inner sys exc_to_code a_func codes bs args kwargs w))"

text \<open>
  \<^verbatim>\<open>_retryable\<close> itself. Reading the multipliers off absent backoff settings raises
  \<^verbatim>\<open>AttributeError\<close> when the decorator is applied, before \<^verbatim>\<open>inner\<close> exists.
\<close>

definition retryable ::
  "'w runtime \<Rightarrow> ('e exn \<Rightarrow> 'c) \<Rightarrow> ('a, 'k, 'e, 'r, 'w) rpc \<Rightarrow> 'c retry_options \<Rightarrow>
   'e exn + ('a, 'k, 'e, 'r, 'w) callable" where
  "retryable sys exc_to_code a_func retry =
     (case backoff_settings retry of
        None \<Rightarrow> Inl AttributeError
      | Some bs \<Rightarrow> Inr (retryable_call sys exc_to_code a_func (retry_codes retry) bs))"

section \<open>The bundling decorator\<close>

text \<open>
  Modelled from the spec: \<^verbatim>\<open>bundling.compute_bundle_id\<close> lives in the bundling module,
  which is not among the sources. The spec (section 4.4) says the key is computed "by
  extracting and concatenating the configured discriminator fields (order-sensitive,
  values converted to a comparable/hashable form)": the key is the list of the values
  of the discriminator fields, in the descriptor's order, \<open>None\<close> for an attribute the
  request does not have.
\<close>

type_synonym bundle_id = "pyval option list"

definition compute_bundle_id :: "message \<Rightarrow> string list \<Rightarrow> bundle_id" where
  "compute_bundle_id request discriminator_fields =
     map (\<lambda>f. request f) discriminator_fields"

text \<open>
  The bundling executor is an external collaborator: of it the module calls
  \<^verbatim>\<open>schedule(a_func, the_id, desc, request, kwargs)\<close> and returns what it returns.
\<close>

record ('k, 'e, 'ev, 'w) executor =
  schedule :: "(message, 'k, 'e, message, 'w) callable \<Rightarrow> bundle_id \<Rightarrow> bundle_descriptor \<Rightarrow>
               message \<Rightarrow> 'k \<Rightarrow> 'w \<Rightarrow> (('e exn + 'ev) \<times> 'w) option"

text \<open>\<^verbatim>\<open>request = args[0]\<close> raises \<^verbatim>\<open>IndexError\<close> when there is no positional argument.\<close>

definition bundleable ::
  "(message, 'k, 'e, message, 'w) callable \<Rightarrow> bundle_descriptor \<Rightarrow> ('k, 'e, 'ev, 'w) executor \<Rightarrow>
   (message, 'k, 'e, 'ev, 'w) callable" where
  "bundleable a_func desc bundler =
     (\<lambda>args kwargs w.
        case args of
          [] \<Rightarrow> Some (Inl IndexError, w)
        | request # _ \<Rightarrow>
            (let the_id = compute_bundle_id request (request_discriminator_fields desc)
             in schedule bundler a_func the_id desc request kwargs w))"

section \<open>The page-streaming decorator\<close>

text \<open>
  What a \<^verbatim>\<open>for\<close> loop iterates over: the elements of a list, the characters of a
  string; \<open>None\<close> for a value that is not iterable (\<^verbatim>\<open>TypeError\<close>).
\<close>

fun iterate :: "pyval \<Rightarrow> pyval list option" where
  "iterate (PList xs) = Some xs"
| "iterate (PStr s) = Some (map (\<lambda>c. PStr [c]) s)"
| "iterate PNone = None"
| "iterate (PInt n) = None"

text \<open>
  The generator \<^verbatim>\<open>flattened\<close> is a state machine. It is suspended either before its
  first statement (\<open>Unstarted\<close>: calling a generator function runs none of its body) or
  at the \<^verbatim>\<open>yield\<close> inside the \<^verbatim>\<open>for\<close> loop (\<open>InFor\<close>, with the request, the current
  response and the elements still to come), or it has ended (\<open>Closed\<close>). \<open>AtCall\<close> is
  the head of \<^verbatim>\<open>while True\<close>, which the generator passes through but never rests at.
\<close>

datatype 'k flat_state =
    Unstarted "message list" 'k
  | AtCall message 'k
  | InFor message message 'k "pyval list"
  | Closed

text \<open>What one \<^verbatim>\<open>next()\<close> on a generator gives.\<close>

datatype 'e pulled = Yield pyval | StopIteration | Raised "'e exn"

text \<open>
  One \<^verbatim>\<open>next()\<close>: the generator runs until its next \<^verbatim>\<open>yield\<close>, its end or an
  exception. A service that keeps answering with empty pages and non-empty tokens keeps
  it running forever, hence a partial function. The request is updated with
  \<^verbatim>\<open>setattr\<close>, here an update of the attribute map that the generator keeps.
\<close>

partial_function (option) flattened_next ::
  "(message, 'k, 'e, message, 'w) callable \<Rightarrow> page_descriptor \<Rightarrow> 'k flat_state \<Rightarrow> 'w \<Rightarrow>
   ('e pulled \<times> 'k flat_state \<times> 'w) option" where
  "flattened_next a_func page_descriptor st w =
     (case st of
        Unstarted args kwargs \<Rightarrow>
          (case args of
             [] \<Rightarrow> Some (Raised IndexError, Closed, w)
           | request # _ \<Rightarrow> flattened_next a_func page_descriptor (AtCall request kwargs) w)
      | AtCall request kwargs \<Rightarrow>
          (case a_func [request] kwargs w of
             None \<Rightarrow> None
           | Some (Inl e, w') \<Rightarrow> Some (Raised e, Closed, w')
           | Some (Inr response, w') \<Rightarrow>
               (case response (resource_field page_descriptor) of
                  None \<Rightarrow> Some (Raised AttributeError, Closed, w')
                | Some v \<Rightarrow>
                    (case iterate v of
                       None \<Rightarrow> Some (Raised TypeError, Closed, w')
                     | Some objs \<Rightarrow>
                         flattened_next a_func page_descriptor
                           (InFor request response kwargs objs) w')))
      | InFor request response kwargs objs \<Rightarrow>
          (case objs of
             obj # rest \<Rightarrow> Some (Yield obj, InFor request response kwargs rest, w)
           | [] \<Rightarrow>
               (case response (response_page_token_field page_descriptor) of
                  None \<Rightarrow> Some (Raised AttributeError, Closed, w)
                | Some next_page_token \<Rightarrow>
                    if \<not> truthy next_page_token then Some (StopIteration, Closed, w)
                    else flattened_next a_func page_descriptor
                           (AtCall (request(request_page_token_field page_descriptor
                                              \<mapsto> next_page_token)) kwargs) w))
      | Closed \<Rightarrow> Some (StopIteration, Closed, w))"

declare flattened_next.simps [code]

text \<open>
  A generator object: the variables its body closes over, and where it is suspended.
\<close>

record ('k, 'e, 'w) generator =
  gen_func :: "(message, 'k, 'e, message, 'w) callable"
  gen_descriptor :: page_descriptor
  gen_state :: "'k flat_state"

definition flattened ::
  "(message, 'k, 'e, message, 'w) callable \<Rightarrow> page_descriptor \<Rightarrow>
   message list \<Rightarrow> 'k \<Rightarrow> ('k, 'e, 'w) generator" where
  "flattened a_func page_descriptor args kwargs =
     \<lparr>gen_func = a_func, gen_descriptor = page_descriptor, gen_state = Unstarted args kwargs\<rparr>"

definition gen_next ::
  "('k, 'e, 'w) generator \<Rightarrow> 'w \<Rightarrow> ('e pulled \<times> ('k, 'e, 'w) generator \<times> 'w) option" where
  "gen_next g w =
     map_option (\<lambda>(p, st, w'). (p, g\<lparr>gen_state := st\<rparr>, w'))
       (flattened_next (gen_func g) (gen_descriptor g) (gen_state g) w)"

text \<open>A consumer that calls \<^verbatim>\<open>next()\<close> \<open>n\<close> times and collects what it gets.\<close>

fun pulls ::
  "nat \<Rightarrow> ('k, 'e, 'w) generator \<Rightarrow> 'w \<Rightarrow> ('e pulled list \<times> ('k, 'e, 'w) generator \<times> 'w) option" where
  "pulls 0 g w = Some ([], g, w)"
| "pulls (Suc n) g w =
     (case gen_next g w of
        None \<Rightarrow> None
      | Some (p, g', w') \<Rightarrow>
          (case pulls n g' w' of
             None \<Rightarrow> None
           | Some (ps, g'', w'') \<Rightarrow> Some (p # ps, g'', w'')))"

text \<open>
  \<^verbatim>\<open>PageIterator\<close> is declared in the package's \<^verbatim>\<open>__init__\<close>; \<^verbatim>\<open>unflattened\<close> only
  constructs one. The record keeps the arguments the constructor is given.
\<close>

record ('k, 'e, 'w) page_iterator =
  pi_func :: "(message, 'k, 'e, message, 'w) callable"
  pi_descriptor :: page_descriptor
  pi_page_token :: "pyval option"
  pi_request :: message
  pi_kwargs :: 'k

definition unflattened ::
  "(message, 'k, 'e, message, 'w) callable \<Rightarrow> page_descriptor \<Rightarrow> pyval option \<Rightarrow>
   message list \<Rightarrow> 'k \<Rightarrow> 'e exn + ('k, 'e, 'w) page_iterator" where
  "unflattened a_func page_descriptor page_token args kwargs =
     (case args of
        [] \<Rightarrow> Inl IndexError
      | request # _ \<Rightarrow>
          Inr \<lparr>pi_func = a_func, pi_descriptor = page_descriptor, pi_page_token = page_token,
               pi_request = request, pi_kwargs = kwargs\<rparr>)"

section \<open>The error-wrapping decorator\<close>

text \<open>
  \<open>errors\<close> is the test \<^verbatim>\<open>except tuple(errors)\<close> performs: whether the exception is an
  instance of one of the listed classes. The \<^verbatim>\<open>raise\<close> statement is given a tuple
  whose first element is the \<^verbatim>\<open>GaxError\<close>; Python 2, for which the module is written,
  raises that first element.
\<close>

definition catch_errors ::
  "('a, 'k, 'e, 'r, 'w) callable \<Rightarrow> ('e exn \<Rightarrow> bool) \<Rightarrow> ('a, 'k, 'e, 'r, 'w) callable" where
  "catch_errors a_func errors =
     (\<lambda>args kwargs w.
        case a_func args kwargs w of
          None \<Rightarrow> None
        | Some (Inr response, w') \<Rightarrow> Some (Inr response, w')
        | Some (Inl exception, w') \<Rightarrow>
            if errors exception then Some (Inl (GaxError ''RPC failed'' (Some exception)), w')
            else Some (Inl exception, w'))"

section \<open>Composing the API call\<close>

text \<open>
  The callables \<^verbatim>\<open>create_api_call\<close> can return differ in what they return when
  called: a generator, a page iterator, the executor's event, or the response.
\<close>

datatype ('k, 'e, 'ev, 'w) api_call =
    Flattened "message list \<Rightarrow> 'k \<Rightarrow> ('k, 'e, 'w) generator"
  | Unflattened "message list \<Rightarrow> 'k \<Rightarrow> 'e exn + ('k, 'e, 'w) page_iterator"
  | Bundled "(message, 'k, 'e, 'ev, 'w) callable"
  | Plain "(message, 'k, 'e, message, 'w) callable"

definition page_streamable ::
  "(message, 'k, 'e, message, 'w) callable \<Rightarrow> page_descriptor \<Rightarrow> pyval option \<Rightarrow> bool \<Rightarrow>
   ('k, 'e, 'ev, 'w) api_call" where
  "page_streamable a_func page_descriptor page_token flatten_pages =
     (if flatten_pages then Flattened (flattened a_func page_descriptor)
      else Unflattened (unflattened a_func page_descriptor page_token))"

record ('c, 'k, 'e, 'ev, 'w) call_settings =
  timeout_setting :: rat
  retry :: "'c retry_options option"
  page_descriptor :: "page_descriptor option"
  page_token :: "pyval option"
  flatten_pages :: "bool option"
  bundler :: "('k, 'e, 'ev, 'w) executor option"
  bundle_descriptor :: "bundle_descriptor option"

text \<open>
  \<^verbatim>\<open>create_api_call\<close>. \<open>API_ERRORS\<close> stands for \<^verbatim>\<open>config.API_ERRORS\<close>, \<open>exc_to_code\<close>
  for \<^verbatim>\<open>config.exc_to_code\<close>. A named tuple or an executor is true in a condition
  when it is not \<^verbatim>\<open>None\<close>, a list when it is not empty.
\<close>

definition timeout_or_retry ::
  "'w runtime \<Rightarrow> ('e exn \<Rightarrow> 'c) \<Rightarrow> (message, 'k, 'e, message, 'w) rpc \<Rightarrow>
   ('c, 'k, 'e, 'ev, 'w) call_settings \<Rightarrow> 'e exn + (message, 'k, 'e, message, 'w) callable" where
  \<comment> \<open>lines 463 to 466: what the local variable \<^verbatim>\<open>api_call\<close> is bound to\<close>
  "timeout_or_retry sys exc_to_code func settings =
     (case retry settings of
        None \<Rightarrow> Inr (add_timeout_arg func (timeout_setting settings))
      | Some r \<Rightarrow>
          if retry_codes r \<noteq> [] then retryable sys exc_to_code func r
          else Inr (add_timeout_arg func (timeout_setting settings)))"

definition create_api_call ::
  "'w runtime \<Rightarrow> ('e exn \<Rightarrow> 'c) \<Rightarrow> ('e exn \<Rightarrow> bool) \<Rightarrow> (message, 'k, 'e, message, 'w) rpc \<Rightarrow>
   ('c, 'k, 'e, 'ev, 'w) call_settings \<Rightarrow> 'e exn + ('k, 'e, 'ev, 'w) api_call" where
  "create_api_call sys exc_to_code API_ERRORS func settings =
     (case timeout_or_retry sys exc_to_code func settings of
        Inl e \<Rightarrow> Inl e
      | Inr api_call \<Rightarrow>
          (case page_descriptor settings of
             Some pd \<Rightarrow>
               if bundler settings \<noteq> None \<and> bundle_descriptor settings \<noteq> None then
                 Inl (ValueError
                   ''The API call has incompatible settings: bundling and page streaming'')
               else
                 (let flatten = (case flatten_pages settings of None \<Rightarrow> True | Some f \<Rightarrow> f)
                  in Inr (page_streamable api_call pd (page_token settings) flatten))
           | None \<Rightarrow>
               (case (bundler settings, bundle_descriptor settings) of
                  (Some b, Some d) \<Rightarrow> Inr (Bundled (bundleable api_call d b))
                | _ \<Rightarrow> Inr (Plain (catch_errors api_call API_ERRORS)))))"

section \<open>Assumptions about the collaborators\<close>

text \<open>
  The clock does not run backwards while the process sleeps or draws a random number,
  and \<^verbatim>\<open>random.uniform(0, b)\<close> is not negative for \<open>b \<ge> 0\<close>.
\<close>

definition clock_monotone :: "'w runtime \<Rightarrow> bool" where
  "clock_monotone sys \<longleftrightarrow>
     (\<forall>d w. 0 \<le> d \<longrightarrow> time_time sys w \<le> time_time sys (time_sleep sys d w)) \<and>
     (\<forall>b w. 0 \<le> b \<longrightarrow> 0 \<le> fst (random_uniform sys 0 b w) \<and>
        time_time sys w \<le> time_time sys (snd (random_uniform sys 0 b w)))"

text \<open>
  Rounding keeps the order of the exact results and leaves zero as it is.
\<close>

definition rounds_monotonically :: "'w runtime \<Rightarrow> bool" where
  "rounds_monotonically sys \<longleftrightarrow>
     (\<forall>x y. x \<le> y \<longrightarrow> fl sys x \<le> fl sys y) \<and> fl sys 0 = 0"

text \<open>
  Rounding gives floats: a float is rounded to itself, the clock shows floats, and the
  difference of two different floats does not round to zero (gradual underflow).
\<close>

definition rounds_to_floats :: "'w runtime \<Rightarrow> bool" where
  "rounds_to_floats sys \<longleftrightarrow>
     (\<forall>x. fl sys (fl sys x) = fl sys x) \<and>
     (\<forall>w. fl sys (time_time sys w) = time_time sys w) \<and>
     (\<forall>x y. fl sys x = x \<longrightarrow> fl sys y = y \<longrightarrow> y < x \<longrightarrow> 0 < fl sys (x - y))"

text \<open>
  A callable that fails on every invocation with an instance of \<^verbatim>\<open>Exception\<close>
  classified as transient, each invocation taking at least \<open>eps\<close> seconds of wall-clock
  time.
\<close>

definition always_transient ::
  "'w runtime \<Rightarrow> ('e exn \<Rightarrow> 'c) \<Rightarrow> ('a, 'k, 'e, 'r, 'w) rpc \<Rightarrow> 'c list \<Rightarrow> rat \<Rightarrow> bool" where
  "always_transient sys exc_to_code a_func codes eps \<longleftrightarrow>
     (\<forall>args t kw w. \<exists>e w'. a_func args t kw w = Some (Inl e, w') \<and>
        is_Exception e \<and> exc_to_code e \<in> set codes \<and>
        time_time sys w + eps \<le> time_time sys w')"

section \<open>Example collaborators and settings\<close>

text \<open>
  A world that is only a clock. \<^verbatim>\<open>random.uniform(a, b)\<close> computes
  \<^verbatim>\<open>a + (b - a) * random()\<close>; \<open>u\<close> is what \<^verbatim>\<open>random()\<close> returns. Nothing is rounded:
  the example runs below work on numbers that need no rounding, or are far from where
  rounding decides.
\<close>

definition clock_runtime :: "rat \<Rightarrow> rat runtime" where
  "clock_runtime u =
     \<lparr>fl = (\<lambda>x. x),
      time_time = (\<lambda>w. w),
      time_sleep = (\<lambda>secs w. w + secs),
      random_uniform = (\<lambda>a b w. (a + (b - a) * u, w))\<rparr>"

text \<open>
  The same world with coarse floats: the multiples of one eighth, an exact result being
  rounded to the nearest of them. \<^verbatim>\<open>random.uniform(a, b)\<close> returns \<open>b\<close>.
\<close>

definition coarse_runtime :: "rat runtime" where
  "coarse_runtime =
     \<lparr>fl = (\<lambda>x. of_int \<lfloor>x * 8 + 1 / 2\<rfloor> / 8),
      time_time = (\<lambda>w. w),
      time_sleep = (\<lambda>secs w. w + secs),
      random_uniform = (\<lambda>a b w. (b, w))\<rparr>"

text \<open>An rpc that takes \<open>d\<close> seconds and then raises the same error, every time.\<close>

definition failing_rpc :: "rat \<Rightarrow> ('a, 'k, unit, 'r, rat) rpc" where
  "failing_rpc d = (\<lambda>args t kw w. Some (Inl (Other ()), w + d))"

text \<open>An rpc that is interrupted from the keyboard after \<open>d\<close> seconds.\<close>

definition interrupted_rpc :: "rat \<Rightarrow> ('a, 'k, unit, 'r, rat) rpc" where
  "interrupted_rpc d = (\<lambda>args t kw w. Some (Inl KeyboardInterrupt, w + d))"

text \<open>A classifier with two codes: \<open>True\<close> for that error, \<open>False\<close> for any other.\<close>

definition unavailable :: "unit exn \<Rightarrow> bool" where
  "unavailable e = (e = Other ())"

definition backoff_100_2_400 :: backoff_settings where
  "backoff_100_2_400 =
     \<lparr>initial_retry_delay_millis = 100, retry_delay_multiplier = 2,
      max_retry_delay_millis = 400, initial_rpc_timeout_millis = 1000,
      rpc_timeout_multiplier = 1, max_rpc_timeout_millis = 1000,
      total_timeout_millis = 6000\<rparr>"

definition backoff_short_deadline :: backoff_settings where
  "backoff_short_deadline =
     \<lparr>initial_retry_delay_millis = 0, retry_delay_multiplier = 1,
      max_retry_delay_millis = 0, initial_rpc_timeout_millis = 2000,
      rpc_timeout_multiplier = 2, max_rpc_timeout_millis = 30000,
      total_timeout_millis = 3000\<rparr>"

definition backoff_zero_cap :: backoff_settings where
  "backoff_zero_cap =
     \<lparr>initial_retry_delay_millis = 0, retry_delay_multiplier = 1,
      max_retry_delay_millis = 0, initial_rpc_timeout_millis = 1000,
      rpc_timeout_multiplier = 1, max_rpc_timeout_millis = 0,
      total_timeout_millis = 2000\<rparr>"

definition backoff_no_time :: backoff_settings where
  "backoff_no_time =
     \<lparr>initial_retry_delay_millis = 100, retry_delay_multiplier = 2,
      max_retry_delay_millis = 400, initial_rpc_timeout_millis = 1000,
      rpc_timeout_multiplier = 1, max_rpc_timeout_millis = 1000,
      total_timeout_millis = 0\<rparr>"

definition backoff_tiny_total :: backoff_settings where
  "backoff_tiny_total =
     \<lparr>initial_retry_delay_millis = 100, retry_delay_multiplier = 2,
      max_retry_delay_millis = 400, initial_rpc_timeout_millis = 1000,
      rpc_timeout_multiplier = 1, max_rpc_timeout_millis = 1000,
      total_timeout_millis = 10\<rparr>"

text \<open>
  A callable that answers from a list of prepared responses and records the positional
  arguments of every call: the world is the pair of the responses left and the record.
\<close>

definition scripted :: "(message, 'k, 'e, message, message list \<times> message list) callable" where
  "scripted args kwargs w =
     (case fst w of
        [] \<Rightarrow> Some (Inl (ValueError ''no response left''), w)
      | r # rs \<Rightarrow> Some (Inr r, (rs, snd w @ args)))"

text \<open>An executor whose event is the bundle id it was handed.\<close>

definition echo_executor :: "(unit, unit, bundle_id, rat) executor" where
  "echo_executor = \<lparr>schedule = (\<lambda>a_func the_id desc request kwargs w. Some (Inr the_id, w))\<rparr>"

definition pages :: page_descriptor where
  "pages = \<lparr>request_page_token_field = ''page_token'',
            response_page_token_field = ''next_page_token'',
            resource_field = ''items''\<rparr>"

definition by_topic :: bundle_descriptor where
  "by_topic = \<lparr>request_discriminator_fields = [''topic'']\<rparr>"

definition retry_only ::
  "bool retry_options option \<Rightarrow> (bool, unit, unit, bundle_id, rat) call_settings" where
  "retry_only r =
     \<lparr>timeout_setting = 30, retry = r, page_descriptor = None, page_token = None,
      flatten_pages = None, bundler = None, bundle_descriptor = None\<rparr>"

definition paged_only ::
  "pyval option \<Rightarrow> bool option \<Rightarrow> (bool, unit, unit, bundle_id, rat) call_settings" where
  "paged_only tok flat =
     \<lparr>timeout_setting = 30, retry = None, page_descriptor = Some pages, page_token = tok,
      flatten_pages = flat, bundler = None, bundle_descriptor = None\<rparr>"

definition paged_and_bundled ::
  "bool retry_options option \<Rightarrow> (bool, unit, unit, bundle_id, rat) call_settings" where
  "paged_and_bundled r =
     \<lparr>timeout_setting = 30, retry = r, page_descriptor = Some pages, page_token = None,
      flatten_pages = None, bundler = Some echo_executor, bundle_descriptor = Some by_topic\<rparr>"

text \<open>Three pages of sizes 2, 2 and 1; the last one has an empty token.\<close>

definition page1 :: message where
  "page1 = [''items'' \<mapsto> PList [PStr ''a'', PStr ''b''], ''next_page_token'' \<mapsto> PStr ''t1'']"

definition page2 :: message where
  "page2 = [''items'' \<mapsto> PList [PStr ''c'', PStr ''d''], ''next_page_token'' \<mapsto> PStr ''t2'']"

definition page3 :: message where
  "page3 = [''items'' \<mapsto> PList [PStr ''e''], ''next_page_token'' \<mapsto> PStr []]"

section \<open>The retry loop, pass by pass\<close>

lemmas run_simps =
  retryable_inner_def retry_start_def retry_while.simps retry_body_def add_timeout_arg_def
  clock_runtime_def failing_rpc_def unavailable_def
  delay_mult_def max_delay_def timeout_mult_def max_timeout_def total_timeout_def
  MILLIS_PER_SECOND_def Let_def

lemma coarse_floors: "\<lfloor>1 / 2 :: rat\<rfloor> = 0" "\<lfloor>29 / 50 :: rat\<rfloor> = 0"
  by (rule floor_unique; simp)+

lemma retry_body_continue:
  assumes "retry_body sys exc_to_code a_func codes bs args kwargs deadline s = Some (Inr s')"
  shows "\<exists>e w1 secs. a_func args (timeout s) kwargs (world s) = Some (Inl e, w1)
           \<and> is_Exception e
           \<and> exc_to_code e \<in> set codes
           \<and> secs = fl sys (fst (random_uniform sys 0 (delay s) w1) / MILLIS_PER_SECOND)
           \<and> 0 \<le> secs
           \<and> world s' = time_sleep sys secs (snd (random_uniform sys 0 (delay s) w1))
           \<and> now s' = time_time sys (world s')
           \<and> delay s' = min (fl sys (delay s * delay_mult bs)) (max_delay sys bs)
           \<and> timeout s' =
               min (min (fl sys (timeout s * timeout_mult bs)) (max_timeout sys bs))
                   (fl sys (deadline - now s'))
           \<and> exc s' = RetryError ''Retry total timeout exceeded with exception'' (Some e)
           \<and> trace s' = trace s @ [Call (timeout s), Failed e, Sleep secs]"
  using assms
  by (auto simp: retry_body_def add_timeout_arg_def Let_def
      split: option.splits sum.splits prod.splits if_splits)

lemma retry_body_finished:
  assumes "retry_body sys exc_to_code a_func codes bs args kwargs deadline s =
             Some (Inl (res, w', tr))"
  shows "\<exists>tr'. tr = trace s @ Call (timeout s) # tr' \<and> (\<forall>t. Call t \<notin> set tr')"
  using assms
  by (auto simp: retry_body_def add_timeout_arg_def Let_def
      split: option.splits sum.splits prod.splits if_splits)

lemmas retry_while_induct = retry_while.raw_induct[rotated 1, consumes 1, case_names unfold]

text \<open>
  The timeout a pass recomputes is positive while time is left, when the timeout of the
  pass was a positive float, the multiplier is at least 1 and the cap is positive.
\<close>

lemma recomputed_timeout_positive:
  assumes mono: "rounds_monotonically sys" and flt: "rounds_to_floats sys"
    and mult: "1 \<le> timeout_mult bs" and maxt: "0 < max_timeout sys bs"
    and dl: "fl sys deadline = deadline"
    and pos: "0 < timeout s" and rep: "fl sys (timeout s) = timeout s"
    and body: "retry_body sys exc_to_code a_func codes bs args kwargs deadline s = Some (Inr s')"
  shows "fl sys (timeout s') = timeout s'" and "now s' < deadline \<longrightarrow> 0 < timeout s'"
proof -
  from retry_body_continue[OF body]
  have clock: "now s' = time_time sys (world s')"
    and t': "timeout s' =
               min (min (fl sys (timeout s * timeout_mult bs)) (max_timeout sys bs))
                   (fl sys (deadline - now s'))"
    by blast+
  have idem: "fl sys (fl sys x) = fl sys x" for x
    using flt by (simp add: rounds_to_floats_def)
  have cap: "fl sys (max_timeout sys bs) = max_timeout sys bs"
    by (simp add: max_timeout_def idem)
  show "fl sys (timeout s') = timeout s'"
    unfolding t' by (simp add: min_def idem cap)
  have "timeout s * 1 \<le> timeout s * timeout_mult bs"
    using mult pos by (intro mult_left_mono) simp_all
  then have "fl sys (timeout s) \<le> fl sys (timeout s * timeout_mult bs)"
    using mono by (simp add: rounds_monotonically_def)
  with pos rep have grown: "0 < fl sys (timeout s * timeout_mult bs)" by simp
  have now_rep: "fl sys (now s') = now s'"
    using flt clock by (simp add: rounds_to_floats_def)
  have left: "0 < fl sys (deadline - now s')" if "now s' < deadline"
    using flt dl now_rep that unfolding rounds_to_floats_def by blast
  show "now s' < deadline \<longrightarrow> 0 < timeout s'"
    unfolding t' using grown maxt left by (simp add: min_def)
qed

lemma retry_while_calls_positive:
  assumes "retry_while sys exc_to_code a_func codes bs args kwargs deadline s = Some fin"
    and "rounds_monotonically sys" and "rounds_to_floats sys"
    and "1 \<le> timeout_mult bs" and "0 < max_timeout sys bs"
    and "fl sys deadline = deadline"
    and "fl sys (timeout s) = timeout s"
    and "now s < deadline \<longrightarrow> 0 < timeout s"
    and "\<forall>t. Call t \<in> set (trace s) \<longrightarrow> 0 < t"
  shows "\<forall>t. Call t \<in> set (snd (snd fin)) \<longrightarrow> 0 < t"
  using assms
proof (induction rule: retry_while_induct)
  case (unfold loop sys exc_to_code a_func codes bs args kwargs deadline s fin)
  note unfolded = unfold.hyps(1)
  note mono = unfold.prems(1) and flt = unfold.prems(2)
    and mult = unfold.prems(3) and maxt = unfold.prems(4)
    and dl = unfold.prems(5) and rep = unfold.prems(6)
    and guard = unfold.prems(7) and old = unfold.prems(8)
  show ?case
  proof (cases "now s < deadline")
    case False
    with unfolded old show ?thesis by auto
  next
    case True
    note live = this
    show ?thesis
    proof (cases "retry_body sys exc_to_code a_func codes bs args kwargs deadline s")
      case None
      with live unfolded show ?thesis by simp
    next
      case (Some r)
      show ?thesis
      proof (cases r)
        case (Inl f)
        with Some live unfolded have eq: "fin = f" by simp
        obtain res w' tr where f: "f = (res, w', tr)" by (cases f)
        from retry_body_finished[OF Some[unfolded Inl f]]
        obtain tr' where "tr = trace s @ Call (timeout s) # tr'" "\<forall>t. Call t \<notin> set tr'"
          by blast
        with old guard live eq f show ?thesis by auto
      next
        case (Inr s')
        with Some live unfolded
        have run: "loop sys exc_to_code a_func codes bs args kwargs deadline s' = Some fin"
          by simp
        have body: "retry_body sys exc_to_code a_func codes bs args kwargs deadline s =
                      Some (Inr s')"
          using Some Inr by simp
        from retry_body_continue[OF body]
        obtain e secs where
          tr': "trace s' = trace s @ [Call (timeout s), Failed e, Sleep secs]" by blast
        from live guard have pos: "0 < timeout s" by simp
        note next_timeout = recomputed_timeout_positive[OF mono flt mult maxt dl pos rep body]
        have b: "\<forall>t. Call t \<in> set (trace s') \<longrightarrow> 0 < t"
          using tr' pos old by auto
        from unfold.IH[OF run mono flt mult maxt dl next_timeout b] show ?thesis .
      qed
    qed
  qed
qed

text \<open>One pass against a callable that always fails transiently.\<close>

lemma retry_body_transient:
  assumes tr: "always_transient sys exc_to_code a_func codes eps"
    and clk: "clock_monotone sys" and mono: "rounds_monotonically sys"
    and d0: "0 \<le> delay s" and m0: "0 \<le> delay_mult bs"
    and x0: "0 \<le> max_retry_delay_millis bs"
    and ns: "now s = time_time sys (world s)"
  shows "\<exists>s' e d. retry_body sys exc_to_code a_func codes bs args kwargs deadline s = Some (Inr s')
           \<and> is_Exception e \<and> exc_to_code e \<in> set codes
           \<and> exc s' = RetryError ''Retry total timeout exceeded with exception'' (Some e)
           \<and> trace s' = trace s @ [Call (timeout s), Failed e, Sleep d]
           \<and> now s' = time_time sys (world s')
           \<and> now s + eps \<le> now s'
           \<and> 0 \<le> delay s'"
proof -
  have nonneg: "0 \<le> fl sys x" if "0 \<le> x" for x
    using mono that unfolding rounds_monotonically_def by metis
  from tr obtain e w1 where
    call: "a_func args (timeout s) kwargs (world s) = Some (Inl e, w1)"
    and inst: "is_Exception e"
    and code: "exc_to_code e \<in> set codes"
    and t1: "time_time sys (world s) + eps \<le> time_time sys w1"
    unfolding always_transient_def by blast
  obtain x w2 where u: "random_uniform sys 0 (delay s) w1 = (x, w2)"
    by (cases "random_uniform sys 0 (delay s) w1")
  from clk d0 u have x0': "0 \<le> x" and t2: "time_time sys w1 \<le> time_time sys w2"
    unfolding clock_monotone_def by (metis fst_conv, metis snd_conv)
  define secs where "secs = fl sys (x / MILLIS_PER_SECOND)"
  have s0: "0 \<le> secs"
    unfolding secs_def using x0' by (intro nonneg) (simp add: MILLIS_PER_SECOND_def)
  define w3 where "w3 = time_sleep sys secs w2"
  from clk s0 have t3: "time_time sys w2 \<le> time_time sys w3"
    unfolding clock_monotone_def w3_def by blast
  define s' where "s' = \<lparr>delay = min (fl sys (delay s * delay_mult bs)) (max_delay sys bs),
      timeout = min (min (fl sys (timeout s * timeout_mult bs)) (max_timeout sys bs))
                    (fl sys (deadline - time_time sys w3)),
      exc = RetryError ''Retry total timeout exceeded with exception'' (Some e),
      now = time_time sys w3, world = w3,
      trace = (trace s @ [Call (timeout s), Failed e]) @ [Sleep secs]\<rparr>"
  have body: "retry_body sys exc_to_code a_func codes bs args kwargs deadline s = Some (Inr s')"
    using call inst code u s0
    by (simp add: retry_body_def add_timeout_arg_def Let_def s'_def secs_def w3_def)
  have "0 \<le> delay s * delay_mult bs"
    using d0 m0 by (rule mult_nonneg_nonneg)
  then have a: "0 \<le> fl sys (delay s * delay_mult bs)" by (rule nonneg)
  have b: "0 \<le> max_delay sys bs"
    unfolding max_delay_def using x0 by (intro nonneg) (simp add: MILLIS_PER_SECOND_def)
  have d': "0 \<le> delay s'"
    using a b by (simp add: s'_def)
  have adv: "now s + eps \<le> now s'"
    using ns t1 t2 t3 by (simp add: s'_def)
  show ?thesis
    using body inst code d' adv
    by (intro exI[of _ s'] exI[of _ e] exI[of _ secs]) (simp add: s'_def)
qed

text \<open>
  Against such a callable the loop ends once the clock has passed the deadline, which
  takes at most \<open>n\<close> passes when \<open>n\<close> times \<open>eps\<close> covers the time left.
\<close>

lemma retry_while_deadline:
  assumes tr: "always_transient sys exc_to_code a_func codes eps"
    and clk: "clock_monotone sys" and mono: "rounds_monotonically sys"
    and m0: "0 \<le> delay_mult bs" and x0: "0 \<le> max_retry_delay_millis bs"
  shows "0 \<le> delay s \<Longrightarrow> now s = time_time sys (world s) \<Longrightarrow>
    deadline \<le> now s + of_nat n * eps \<Longrightarrow>
    \<exists>err w' tr. retry_while sys exc_to_code a_func codes bs args kwargs deadline s
                   = Some (Inl err, w', tr)
       \<and> deadline \<le> time_time sys w'
       \<and> (if now s < deadline
           then \<exists>tr' t e d. tr = tr' @ [Call t, Failed e, Sleep d]
                  \<and> is_Exception e \<and> exc_to_code e \<in> set codes
                  \<and> err = RetryError ''Retry total timeout exceeded with exception'' (Some e)
           else tr = trace s \<and> err = exc s \<and> w' = world s)"
proof (induction n arbitrary: s)
  case 0
  then have "\<not> now s < deadline" by simp
  then show ?case
    using 0 by (subst retry_while.simps) simp
next
  case (Suc n)
  show ?case
  proof (cases "now s < deadline")
    case False
    then show ?thesis
      using Suc.prems by (subst retry_while.simps) simp
  next
    case True
    from retry_body_transient[OF tr clk mono Suc.prems(1) m0 x0 Suc.prems(2)]
    obtain s' e d where
      body: "retry_body sys exc_to_code a_func codes bs args kwargs deadline s = Some (Inr s')"
      and inst: "is_Exception e"
      and code: "exc_to_code e \<in> set codes"
      and exc': "exc s' = RetryError ''Retry total timeout exceeded with exception'' (Some e)"
      and tr': "trace s' = trace s @ [Call (timeout s), Failed e, Sleep d]"
      and ns': "now s' = time_time sys (world s')"
      and adv: "now s + eps \<le> now s'"
      and d': "0 \<le> delay s'"
      by blast
    have "deadline \<le> now s + eps + of_nat n * eps"
      using Suc.prems(3) by (simp add: algebra_simps)
    with adv have left: "deadline \<le> now s' + of_nat n * eps" by simp
    from Suc.IH[OF d' ns' left]
    obtain err w' tr where
      run: "retry_while sys exc_to_code a_func codes bs args kwargs deadline s' =
              Some (Inl err, w', tr)"
      and late: "deadline \<le> time_time sys w'"
      and shape: "if now s' < deadline
           then \<exists>tr' t e d. tr = tr' @ [Call t, Failed e, Sleep d]
                  \<and> is_Exception e \<and> exc_to_code e \<in> set codes
                  \<and> err = RetryError ''Retry total timeout exceeded with exception'' (Some e)
           else tr = trace s' \<and> err = exc s' \<and> w' = world s'"
      by blast
    have unfold: "retry_while sys exc_to_code a_func codes bs args kwargs deadline s =
                    Some (Inl err, w', tr)"
      using True body run by (subst retry_while.simps) simp
    have "\<exists>tr' t e d. tr = tr' @ [Call t, Failed e, Sleep d]
                  \<and> is_Exception e \<and> exc_to_code e \<in> set codes
                  \<and> err = RetryError ''Retry total timeout exceeded with exception'' (Some e)"
    proof (cases "now s' < deadline")
      case True
      with shape show ?thesis by simp
    next
      case False
      with shape have "tr = trace s @ [Call (timeout s), Failed e, Sleep d]"
        and "err = RetryError ''Retry total timeout exceeded with exception'' (Some e)"
        using tr' exc' by simp_all
      with inst code show ?thesis by blast
    qed
    with unfold late True show ?thesis by simp
  qed
qed

section \<open>Claims about the retry decorator\<close>

text \<open>
  C1. The claim: with \<open>initial_retry_delay = 100\<close>, \<open>retry_delay_multiplier = 2\<close> and
  \<open>max_retry_delay = 400\<close> (milliseconds), the sleep before attempt \<open>k\<close> is drawn from
  \<open>[0, min(100 * 2^(k-1), 400)]\<close> milliseconds, the delay and its cap being in the same
  unit. The code keeps the delay in milliseconds and compares it with the cap converted
  to seconds. Run with these settings against a call that always fails and a random
  number generator that returns the upper end of the range, it sleeps 100 ms, then
  0.4 ms, then 0.4 ms (\<open>1 / 10\<close>, \<open>1 / 2500\<close>, \<open>1 / 2500\<close> seconds), where the claim
  gives 100 ms, 200 ms, 400 ms.
\<close>

theorem retry_delay_cap_in_seconds:
  "retryable_inner (clock_runtime 1) unavailable (failing_rpc 2) [True] backoff_100_2_400
       ([] :: unit list) () 0 =
   (Some (Inl (RetryError ''Retry total timeout exceeded with exception'' (Some (Other ()))),
      3813 / 625,
      [Call 1, Failed (Other ()), Sleep (1 / 10),
       Call 1, Failed (Other ()), Sleep (1 / 2500),
       Call 1, Failed (Other ()), Sleep (1 / 2500)]) :: (unit, unit, rat) finished option)"
  by (simp add: run_simps backoff_100_2_400_def)

text \<open>
  C2, as amended. Against a callable that fails on every invocation with an instance of
  \<^verbatim>\<open>Exception\<close> classified as transient, each invocation taking at least \<open>eps > 0\<close>
  seconds, with a clock that does not run backwards and non-negative retry delay
  settings, the retrying call ends with a \<^verbatim>\<open>RetryError\<close>, raised when the clock has
  reached the deadline, which is the float sum of the time of invocation and the total
  timeout. When the time of invocation is before that deadline, the call has made at
  least one attempt, its last actions were an attempt that failed with some transient
  \<open>e\<close> and a sleep, and the error's cause is that \<open>e\<close>. Otherwise (a total timeout that
  is zero, negative, or too small to move the float sum) it has made no attempt at all
  and the error is the one without a cause, saying that no response was received.
\<close>

theorem retry_deadline_exceeded:
  fixes a_func :: "('a, 'k, 'e, 'r, 'w) rpc"
  assumes tr: "always_transient sys exc_to_code a_func codes eps" and eps: "0 < eps"
    and clk: "clock_monotone sys" and mono: "rounds_monotonically sys"
    and d0: "0 \<le> initial_retry_delay_millis bs"
    and m0: "0 \<le> retry_delay_multiplier bs"
    and x0: "0 \<le> max_retry_delay_millis bs"
  shows "\<exists>err w' tr. retryable_inner sys exc_to_code a_func codes bs args kwargs w
                   = Some (Inl err, w', tr)
       \<and> fl sys (time_time sys w + total_timeout sys bs) \<le> time_time sys w'
       \<and> (if time_time sys w < fl sys (time_time sys w + total_timeout sys bs)
           then \<exists>tr' t e d. tr = tr' @ [Call t, Failed e, Sleep d]
                  \<and> is_Exception e \<and> exc_to_code e \<in> set codes
                  \<and> err = RetryError ''Retry total timeout exceeded with exception'' (Some e)
           else tr = [] \<and> w' = w
                  \<and> err = RetryError
                      ''Retry total timeout exceeded before anyresponse was received'' None)"
proof -
  define s :: "('e, 'w) retry_state" where "s = retry_start sys bs w"
  define deadline where "deadline = fl sys (now s + total_timeout sys bs)"
  obtain n :: nat where n: "(deadline - now s) / eps \<le> of_nat n"
    using real_arch_simple by blast
  have "deadline - now s \<le> of_nat n * eps"
    using n eps by (simp add: pos_divide_le_eq)
  then have left: "deadline \<le> now s + of_nat n * eps"
    by simp
  have s_delay: "0 \<le> delay s" using d0 by (simp add: s_def retry_start_def)
  have s_now: "now s = time_time sys (world s)" by (simp add: s_def retry_start_def)
  have s_clock: "now s = time_time sys w" by (simp add: s_def retry_start_def)
  have m0': "0 \<le> delay_mult bs" using m0 by (simp add: delay_mult_def)
  from retry_while_deadline[OF tr clk mono m0' x0 s_delay s_now left, of args kwargs]
  obtain err w' tr where
    run: "retry_while sys exc_to_code a_func codes bs args kwargs deadline s =
            Some (Inl err, w', tr)"
    and late: "deadline \<le> time_time sys w'"
    and shape: "if now s < deadline
           then \<exists>tr' t e d. tr = tr' @ [Call t, Failed e, Sleep d]
                  \<and> is_Exception e \<and> exc_to_code e \<in> set codes
                  \<and> err = RetryError ''Retry total timeout exceeded with exception'' (Some e)
           else tr = trace s \<and> err = exc s \<and> w' = world s"
    by blast
  have inner: "retryable_inner sys exc_to_code a_func codes bs args kwargs w =
                 Some (Inl err, w', tr)"
    using run by (simp add: retryable_inner_def Let_def s_def deadline_def)
  have dl: "deadline = fl sys (time_time sys w + total_timeout sys bs)"
    by (simp add: deadline_def s_clock)
  have shape': "if time_time sys w < fl sys (time_time sys w + total_timeout sys bs)
           then \<exists>tr' t e d. tr = tr' @ [Call t, Failed e, Sleep d]
                  \<and> is_Exception e \<and> exc_to_code e \<in> set codes
                  \<and> err = RetryError ''Retry total timeout exceeded with exception'' (Some e)
           else tr = [] \<and> w' = w
                  \<and> err = RetryError
                      ''Retry total timeout exceeded before anyresponse was received'' None"
  proof (cases "now s < deadline")
    case True
    then have "time_time sys w < fl sys (time_time sys w + total_timeout sys bs)"
      by (simp add: deadline_def s_clock)
    moreover from True shape
    have "\<exists>tr' t e d. tr = tr' @ [Call t, Failed e, Sleep d]
                  \<and> is_Exception e \<and> exc_to_code e \<in> set codes
                  \<and> err = RetryError ''Retry total timeout exceeded with exception'' (Some e)"
      by simp
    ultimately show ?thesis by simp
  next
    case False
    then have "\<not> time_time sys w < fl sys (time_time sys w + total_timeout sys bs)"
      by (simp add: deadline_def s_clock)
    moreover from False shape have "tr = trace s \<and> err = exc s \<and> w' = world s"
      by simp
    then have "tr = [] \<and> w' = w
                  \<and> err = RetryError
                      ''Retry total timeout exceeded before anyresponse was received'' None"
      by (simp add: s_def retry_start_def)
    ultimately show ?thesis by simp
  qed
  from inner late[unfolded dl] shape' show ?thesis by blast
qed

text \<open>
  The theorem at a call that takes two seconds and always fails, with a total timeout
  of six seconds; and, with the coarse floats, at a total timeout of ten milliseconds,
  which is positive but rounds to no time at all: no attempt is made.
\<close>

theorem retry_deadline_exceeded_witness:
  "(\<exists>err w' tr.
     retryable_inner (clock_runtime (1 / 2)) unavailable (failing_rpc 2) [True]
       backoff_100_2_400 ([] :: unit list) () 0
       = (Some (Inl err, w', tr) :: (unit, unit, rat) finished option)
     \<and> 6 \<le> w'
     \<and> (\<exists>tr' t e d. tr = tr' @ [Call t, Failed e, Sleep d]
          \<and> err = RetryError ''Retry total timeout exceeded with exception'' (Some e)))
   \<and> (\<exists>err w' tr.
     retryable_inner coarse_runtime unavailable (failing_rpc 1) [True]
       backoff_tiny_total ([] :: unit list) () 0
       = (Some (Inl err, w', tr) :: (unit, unit, rat) finished option)
     \<and> tr = [] \<and> 0 < total_timeout_millis backoff_tiny_total)"
proof -
  have first: "\<exists>err w' tr.
     retryable_inner (clock_runtime (1 / 2)) unavailable (failing_rpc 2) [True]
       backoff_100_2_400 ([] :: unit list) () 0
       = (Some (Inl err, w', tr) :: (unit, unit, rat) finished option)
     \<and> 6 \<le> w'
     \<and> (\<exists>tr' t e d. tr = tr' @ [Call t, Failed e, Sleep d]
          \<and> err = RetryError ''Retry total timeout exceeded with exception'' (Some e))"
  proof -
    have a: "always_transient (clock_runtime (1 / 2)) unavailable
               (failing_rpc 2 :: (unit, unit, unit, unit, rat) rpc) [True] 2"
      by (simp add: always_transient_def clock_runtime_def failing_rpc_def unavailable_def)
    have b: "clock_monotone (clock_runtime (1 / 2))"
      by (simp add: clock_monotone_def clock_runtime_def)
    have r: "rounds_monotonically (clock_runtime (1 / 2))"
      by (simp add: rounds_monotonically_def clock_runtime_def)
    have c: "0 \<le> initial_retry_delay_millis backoff_100_2_400"
      "0 \<le> retry_delay_multiplier backoff_100_2_400"
      "0 \<le> max_retry_delay_millis backoff_100_2_400"
      by (simp_all add: backoff_100_2_400_def)
    have T: "total_timeout (clock_runtime (1 / 2)) backoff_100_2_400 = 6"
      by (simp add: total_timeout_def backoff_100_2_400_def MILLIS_PER_SECOND_def
          clock_runtime_def)
    have id: "fl (clock_runtime (1 / 2)) x = x" "time_time (clock_runtime (1 / 2)) x = x"
      for x
      by (simp_all add: clock_runtime_def)
    from retry_deadline_exceeded[OF a _ b r c, of "[]" "()" 0]
    show ?thesis
      unfolding T id by simp blast
  qed
  have second: "\<exists>err w' tr.
     retryable_inner coarse_runtime unavailable (failing_rpc 1) [True]
       backoff_tiny_total ([] :: unit list) () 0
       = (Some (Inl err, w', tr) :: (unit, unit, rat) finished option)
     \<and> tr = [] \<and> 0 < total_timeout_millis backoff_tiny_total"
  proof -
    have a: "always_transient coarse_runtime unavailable
               (failing_rpc 1 :: (unit, unit, unit, unit, rat) rpc) [True] 1"
      by (simp add: always_transient_def coarse_runtime_def failing_rpc_def unavailable_def)
    have b: "clock_monotone coarse_runtime"
      by (simp add: clock_monotone_def coarse_runtime_def)
    have r: "rounds_monotonically coarse_runtime"
      unfolding rounds_monotonically_def coarse_runtime_def
      by (auto intro!: divide_right_mono floor_mono simp: coarse_floors)
    have c: "0 \<le> initial_retry_delay_millis backoff_tiny_total"
      "0 \<le> retry_delay_multiplier backoff_tiny_total"
      "0 \<le> max_retry_delay_millis backoff_tiny_total"
      by (simp_all add: backoff_tiny_total_def)
    have ng: "\<not> time_time coarse_runtime 0
                < fl coarse_runtime (time_time coarse_runtime 0
                    + total_timeout coarse_runtime backoff_tiny_total)"
      by (simp add: total_timeout_def backoff_tiny_total_def MILLIS_PER_SECOND_def
          coarse_runtime_def coarse_floors)
    from retry_deadline_exceeded[OF a _ b r c, of "[]" "()" 0]
    obtain err w' tr where
      run: "retryable_inner coarse_runtime unavailable (failing_rpc 1) [True]
         backoff_tiny_total ([] :: unit list) () 0
         = (Some (Inl err, w', tr) :: (unit, unit, rat) finished option)"
      and shape: "if time_time coarse_runtime 0
                < fl coarse_runtime (time_time coarse_runtime 0
                    + total_timeout coarse_runtime backoff_tiny_total)
             then \<exists>tr' t e d. tr = tr' @ [Call t, Failed e, Sleep d]
                    \<and> is_Exception e \<and> unavailable e \<in> set [True]
                    \<and> err = RetryError ''Retry total timeout exceeded with exception''
                              (Some e)
             else tr = [] \<and> w' = 0
                    \<and> err = RetryError
                        ''Retry total timeout exceeded before anyresponse was received'' None"
      by auto
    from shape ng have "tr = []" by simp
    moreover have "0 < total_timeout_millis backoff_tiny_total"
      by (simp add: backoff_tiny_total_def)
    ultimately show ?thesis using run by blast
  qed
  from first second show ?thesis by (rule conjI)
qed

text \<open>
  C2 as stated asks for at least one attempt whatever the total timeout. With a total
  timeout of zero the loop is never entered: no attempt is made (the trace is empty).
\<close>

theorem retry_deadline_exceeded_counterexample:
  "retryable_inner (clock_runtime 0) unavailable (failing_rpc 1) [True] backoff_no_time
       ([] :: unit list) () 0 =
   (Some (Inl (RetryError ''Retry total timeout exceeded before anyresponse was received'' None),
      0, []) :: (unit, unit, rat) finished option)"
  by (simp add: run_simps backoff_no_time_def)

text \<open>
  C5, as amended. Each time the per-attempt timeout is recomputed after a transient
  failure, the new value is the minimum of the old timeout times the multiplier,
  \<open>max_rpc_timeout\<close>, and \<open>deadline - now\<close> with \<open>now\<close> the clock read just before (the
  product and the difference as floats). So it exceeds neither that remaining time nor
  \<open>max_rpc_timeout\<close>. When the multiplier is at least 1 and the timeout of the failed
  attempt was a float that is not negative, the new timeout is at least the old one
  unless it equals one of these two caps: the remaining time can make it smaller than
  the timeout of the attempt before.
\<close>

theorem retry_timeout_recomputed:
  assumes "retry_body sys exc_to_code a_func codes bs args kwargs deadline s = Some (Inr s')"
  shows "now s' = time_time sys (world s')
       \<and> timeout s' =
           min (min (fl sys (timeout s * rpc_timeout_multiplier bs)) (max_timeout sys bs))
               (fl sys (deadline - now s'))
       \<and> timeout s' \<le> fl sys (deadline - now s')
       \<and> timeout s' \<le> max_timeout sys bs
       \<and> (rounds_monotonically sys \<and> fl sys (timeout s) = timeout s
            \<and> 1 \<le> rpc_timeout_multiplier bs \<and> 0 \<le> timeout s \<longrightarrow>
            timeout s \<le> timeout s' \<or> timeout s' = max_timeout sys bs
              \<or> timeout s' = fl sys (deadline - now s'))"
proof -
  from retry_body_continue[OF assms]
  have clock: "now s' = time_time sys (world s')"
    and t': "timeout s' =
               min (min (fl sys (timeout s * rpc_timeout_multiplier bs)) (max_timeout sys bs))
                   (fl sys (deadline - now s'))"
    unfolding timeout_mult_def by blast+
  from t' have caps: "timeout s' \<le> fl sys (deadline - now s')" "timeout s' \<le> max_timeout sys bs"
    by simp_all
  have "timeout s \<le> timeout s' \<or> timeout s' = max_timeout sys bs
          \<or> timeout s' = fl sys (deadline - now s')"
    if mono: "rounds_monotonically sys" and rep: "fl sys (timeout s) = timeout s"
      and mult: "1 \<le> rpc_timeout_multiplier bs" and pos: "0 \<le> timeout s"
  proof -
    have "timeout s * 1 \<le> timeout s * rpc_timeout_multiplier bs"
      using mult pos by (intro mult_left_mono) simp_all
    then have "fl sys (timeout s) \<le> fl sys (timeout s * rpc_timeout_multiplier bs)"
      using mono by (simp add: rounds_monotonically_def)
    with rep have "timeout s \<le> fl sys (timeout s * rpc_timeout_multiplier bs)" by simp
    with t' show ?thesis by (auto simp: min_def)
  qed
  with clock t' caps show ?thesis by blast
qed

text \<open>
  The theorem at the first pass of a run with an initial timeout of 2 s, a multiplier
  of 2, a cap of 30 s and a total timeout of 3 s, the call taking 2.5 s: the recomputed
  timeout is \<open>min (min (2 * 2) 30) (3 - 5 / 2)\<close>, the half second that is left.
\<close>

theorem retry_timeout_recomputed_witness:
  "retry_body (clock_runtime 0) unavailable (failing_rpc (5 / 2)) [True] backoff_short_deadline
       ([] :: unit list) () 3 (retry_start (clock_runtime 0) backoff_short_deadline 0) =
     (Some (Inr \<lparr>delay = 0, timeout = 1 / 2,
         exc = RetryError ''Retry total timeout exceeded with exception'' (Some (Other ())),
         now = 5 / 2, world = 5 / 2,
         trace = [Call 2, Failed (Other ()), Sleep 0]\<rparr>)
      :: ((unit, unit, rat) finished + (unit, rat) retry_state) option)
   \<and> (1 / 2 :: rat) = min (min (2 * 2) 30) (3 - 5 / 2)
   \<and> (1 / 2 :: rat) \<le> max_timeout (clock_runtime 0) backoff_short_deadline"
proof -
  have body: "retry_body (clock_runtime 0) unavailable (failing_rpc (5 / 2)) [True]
       backoff_short_deadline ([] :: unit list) () 3
       (retry_start (clock_runtime 0) backoff_short_deadline 0) =
     (Some (Inr \<lparr>delay = 0, timeout = 1 / 2,
         exc = RetryError ''Retry total timeout exceeded with exception'' (Some (Other ())),
         now = 5 / 2, world = 5 / 2,
         trace = [Call 2, Failed (Other ()), Sleep 0]\<rparr>)
      :: ((unit, unit, rat) finished + (unit, rat) retry_state) option)"
    by (simp add: run_simps backoff_short_deadline_def)
  from retry_timeout_recomputed[OF body] body show ?thesis by simp
qed

text \<open>
  C5 as stated has the timeout non-decreasing until it is capped at \<open>max_rpc_timeout\<close>.
  In this run the first attempt gets 2 s and the second gets half a second, which is not
  the cap of 30 s.
\<close>

theorem retry_timeout_recomputed_counterexample:
  "retryable_inner (clock_runtime 0) unavailable (failing_rpc (5 / 2)) [True]
       backoff_short_deadline ([] :: unit list) () 0 =
   (Some (Inl (RetryError ''Retry total timeout exceeded with exception'' (Some (Other ()))),
      5,
      [Call 2, Failed (Other ()), Sleep 0,
       Call (1 / 2), Failed (Other ()), Sleep 0]) :: (unit, unit, rat) finished option)
   \<and> max_timeout (clock_runtime 0) backoff_short_deadline = 30"
  by (simp add: run_simps backoff_short_deadline_def)

text \<open>
  C6, as amended. Given an initial per-attempt timeout and a cap \<open>max_rpc_timeout\<close>
  that are positive as computed in seconds, and an \<open>rpc_timeout_multiplier\<close> of at least
  1: in every invocation of the retrying call that ends, the wrapped callable was
  invoked with positive timeouts only; and whenever a pass entered with a positive
  timeout recomputes a timeout that is not positive, the loop ends there, without
  another invocation (the trace stays as it is), with the deadline-exceeded
  \<^verbatim>\<open>RetryError\<close> whose cause is the transient error of that pass.
\<close>

theorem retry_timeout_positive:
  fixes a_func :: "('a, 'k, 'e, 'r, 'w) rpc"
  assumes mono: "rounds_monotonically sys" and flt: "rounds_to_floats sys"
    and i0: "0 < fl sys (initial_rpc_timeout_millis bs / MILLIS_PER_SECOND)"
    and m1: "1 \<le> rpc_timeout_multiplier bs"
    and x0: "0 < max_timeout sys bs"
  shows "(\<forall>res w' tr t.
            retryable_inner sys exc_to_code a_func codes bs args kwargs w = Some (res, w', tr)
            \<longrightarrow> Call t \<in> set tr \<longrightarrow> 0 < t)
       \<and> (\<forall>deadline s s'.
            0 < timeout s \<and> fl sys (timeout s) = timeout s \<and> fl sys deadline = deadline
            \<longrightarrow> retry_body sys exc_to_code a_func codes bs args kwargs deadline s = Some (Inr s')
            \<longrightarrow> timeout s' \<le> 0
            \<longrightarrow> (\<exists>e w1. a_func args (timeout s) kwargs (world s) = Some (Inl e, w1)
                   \<and> retry_while sys exc_to_code a_func codes bs args kwargs deadline s' =
                       Some (Inl (RetryError ''Retry total timeout exceeded with exception''
                                    (Some e)),
                             world s', trace s')))"
proof -
  have mult: "1 \<le> timeout_mult bs" using m1 by (simp add: timeout_mult_def)
  have idem: "fl sys (fl sys x) = fl sys x" for x
    using flt by (simp add: rounds_to_floats_def)
  have whole: "0 < t"
    if run: "retryable_inner sys exc_to_code a_func codes bs args kwargs w = Some (res, w', tr)"
      and call: "Call t \<in> set tr" for res w' tr t
  proof -
    define s :: "('e, 'w) retry_state" where "s = retry_start sys bs w"
    define deadline where "deadline = fl sys (now s + total_timeout sys bs)"
    have loop: "retry_while sys exc_to_code a_func codes bs args kwargs deadline s =
                  Some (res, w', tr)"
      using run by (simp add: retryable_inner_def Let_def s_def deadline_def)
    have dl: "fl sys deadline = deadline"
      by (simp add: deadline_def idem)
    have rep: "fl sys (timeout s) = timeout s"
      by (simp add: s_def retry_start_def idem)
    have start: "now s < deadline \<longrightarrow> 0 < timeout s"
      using i0 by (simp add: s_def retry_start_def)
    have none: "\<forall>t. Call t \<in> set (trace s) \<longrightarrow> 0 < t"
      by (simp add: s_def retry_start_def)
    from retry_while_calls_positive[OF loop mono flt mult x0 dl rep start none] call
    show ?thesis by simp
  qed
  have stop: "\<exists>e w1. a_func args (timeout s) kwargs (world s) = Some (Inl e, w1)
                   \<and> retry_while sys exc_to_code a_func codes bs args kwargs deadline s' =
                       Some (Inl (RetryError ''Retry total timeout exceeded with exception''
                                    (Some e)),
                             world s', trace s')"
    if pos: "0 < timeout s" and rep: "fl sys (timeout s) = timeout s"
      and dl: "fl sys deadline = deadline"
      and body: "retry_body sys exc_to_code a_func codes bs args kwargs deadline s = Some (Inr s')"
      and low: "timeout s' \<le> 0" for deadline and s s' :: "('e, 'w) retry_state"
  proof -
    from retry_body_continue[OF body]
    obtain e w1 where call: "a_func args (timeout s) kwargs (world s) = Some (Inl e, w1)"
      and exc': "exc s' = RetryError ''Retry total timeout exceeded with exception'' (Some e)"
      by blast
    from recomputed_timeout_positive(2)[OF mono flt mult x0 dl pos rep body] low
    have "\<not> now s' < deadline" by auto
    then have "retry_while sys exc_to_code a_func codes bs args kwargs deadline s' =
                 Some (Inl (exc s'), world s', trace s')"
      by (subst retry_while.simps) simp
    with call exc' show ?thesis by auto
  qed
  from whole stop show ?thesis by blast
qed

text \<open>
  The theorem at the run of two attempts above: the second attempt is made with half a
  second, and the timeout recomputed after it, \<open>min (min (1 / 2 * 2) 30) (3 - 5)\<close>, is
  negative, so the loop ends.
\<close>

theorem retry_timeout_positive_witness:
  "(\<exists>res w' tr.
      retryable_inner (clock_runtime 0) unavailable (failing_rpc (5 / 2)) [True]
        backoff_short_deadline ([] :: unit list) () 0
        = (Some (res, w', tr) :: (unit, unit, rat) finished option)
      \<and> Call (1 / 2) \<in> set tr \<and> (0 :: rat) < 1 / 2)
   \<and> retry_while (clock_runtime 0) unavailable (failing_rpc (5 / 2)) [True]
        backoff_short_deadline ([] :: unit list) () 3
        \<lparr>delay = 0, timeout = - 2,
         exc = RetryError ''Retry total timeout exceeded with exception'' (Some (Other ())),
         now = 5, world = 5,
         trace = [Call 2, Failed (Other ()), Sleep 0, Call (1 / 2), Failed (Other ()), Sleep 0]\<rparr>
      = (Some (Inl (RetryError ''Retry total timeout exceeded with exception''
                      (Some (Other ()))),
               5,
               [Call 2, Failed (Other ()), Sleep 0, Call (1 / 2), Failed (Other ()), Sleep 0])
         :: (unit, unit, rat) finished option)"
proof -
  have r: "rounds_monotonically (clock_runtime 0)" "rounds_to_floats (clock_runtime 0)"
    by (simp_all add: rounds_monotonically_def rounds_to_floats_def clock_runtime_def)
  have pos: "0 < fl (clock_runtime 0)
                   (initial_rpc_timeout_millis backoff_short_deadline / MILLIS_PER_SECOND)"
    "1 \<le> rpc_timeout_multiplier backoff_short_deadline"
    "0 < max_timeout (clock_runtime 0) backoff_short_deadline"
    by (simp_all add: backoff_short_deadline_def clock_runtime_def max_timeout_def
        MILLIS_PER_SECOND_def)
  note inst = retry_timeout_positive[OF r pos, of unavailable
      "failing_rpc (5 / 2) :: (unit, unit, unit, unit, rat) rpc" "[True]" "[]" "()" 0]
  have run: "retryable_inner (clock_runtime 0) unavailable (failing_rpc (5 / 2)) [True]
       backoff_short_deadline ([] :: unit list) () 0 =
     (Some (Inl (RetryError ''Retry total timeout exceeded with exception'' (Some (Other ()))),
        5,
        [Call 2, Failed (Other ()), Sleep 0,
         Call (1 / 2), Failed (Other ()), Sleep 0]) :: (unit, unit, rat) finished option)"
    by (simp add: run_simps backoff_short_deadline_def)
  have "Call (1 / 2) \<in> set [Call 2, Failed (Other ()), Sleep 0,
         Call (1 / 2), Failed (Other ()), Sleep (0 :: rat) :: unit event]"
    by simp
  with inst run have first: "(0 :: rat) < 1 / 2" by blast
  define s :: "(unit, rat) retry_state" where "s = \<lparr>delay = 0, timeout = 1 / 2,
         exc = RetryError ''Retry total timeout exceeded with exception'' (Some (Other ())),
         now = 5 / 2, world = 5 / 2,
         trace = [Call 2, Failed (Other ()), Sleep 0]\<rparr>"
  define s' :: "(unit, rat) retry_state" where "s' = \<lparr>delay = 0, timeout = - 2,
         exc = RetryError ''Retry total timeout exceeded with exception'' (Some (Other ())),
         now = 5, world = 5,
         trace = [Call 2, Failed (Other ()), Sleep 0, Call (1 / 2), Failed (Other ()), Sleep 0]\<rparr>"
  have body: "retry_body (clock_runtime 0) unavailable (failing_rpc (5 / 2)) [True]
       backoff_short_deadline ([] :: unit list) () 3 s =
     (Some (Inr s') :: ((unit, unit, rat) finished + (unit, rat) retry_state) option)"
    by (simp add: run_simps backoff_short_deadline_def s_def s'_def)
  have pre: "0 < timeout s \<and> fl (clock_runtime 0) (timeout s) = timeout s
      \<and> fl (clock_runtime 0) 3 = 3"
    by (simp add: s_def clock_runtime_def)
  have low: "timeout s' \<le> 0" by (simp add: s'_def)
  from inst pre body low
  obtain e w1 where
    call: "(failing_rpc (5 / 2) :: (unit, unit, unit, unit, rat) rpc) [] (timeout s) ()
             (world s) = Some (Inl e, w1)"
    and fin: "retry_while (clock_runtime 0) unavailable (failing_rpc (5 / 2)) [True]
        backoff_short_deadline ([] :: unit list) () 3 s' =
      (Some (Inl (RetryError ''Retry total timeout exceeded with exception'' (Some e)),
             world s', trace s') :: (unit, unit, rat) finished option)"
    by blast
  from call have "e = Other ()" by (simp add: failing_rpc_def)
  with fin
  have second: "retry_while (clock_runtime 0) unavailable (failing_rpc (5 / 2)) [True]
        backoff_short_deadline ([] :: unit list) () 3 s' =
      (Some (Inl (RetryError ''Retry total timeout exceeded with exception''
                    (Some (Other ()))),
             world s', trace s') :: (unit, unit, rat) finished option)"
    by simp
  from run first second show ?thesis by (simp add: s'_def)
qed

text \<open>
  C6 as stated needs a positive initial timeout only. With a cap \<open>max_rpc_timeout\<close> of
  zero, which the settings allow, the timeout recomputed after the first failure is
  \<open>min (min (1 * 1) 0) (2 - 1) = 0\<close> while a second of the total timeout is left: the
  loop goes on and invokes the callable with a timeout of zero.
\<close>

theorem retry_timeout_positive_counterexample:
  "retryable_inner (clock_runtime 0) unavailable (failing_rpc 1) [True] backoff_zero_cap
       ([] :: unit list) () 0 =
   (Some (Inl (RetryError ''Retry total timeout exceeded with exception'' (Some (Other ()))),
      2,
      [Call 1, Failed (Other ()), Sleep 0,
       Call 0, Failed (Other ()), Sleep 0]) :: (unit, unit, rat) finished option)
   \<and> 0 < initial_rpc_timeout_millis backoff_zero_cap"
  by (simp add: run_simps backoff_zero_cap_def)

text \<open>
  C7. When an attempt of the wrapped callable fails with an error, that is an instance
  of \<^verbatim>\<open>Exception\<close>, whose code is not in \<open>retry_codes\<close>, the retrying call raises at once a
  \<^verbatim>\<open>RetryError\<close> whose cause is that error: the world is as the failed attempt left
  it and the trace ends with that attempt, so there is no sleep and no further attempt,
  whatever time is left before the deadline. This holds at any pass of the loop (any
  values \<open>s\<close> of the loop's variables), and in particular at the first attempt of an
  invocation that starts before its deadline.
\<close>

theorem retry_nonretryable_immediate:
  fixes a_func :: "('a, 'k, 'e, 'r, 'w) rpc" and s :: "('e, 'w) retry_state"
  assumes "is_Exception e" and "exc_to_code e \<notin> set codes"
  shows "(now s < deadline \<and> a_func args (timeout s) kwargs (world s) = Some (Inl e, w1) \<longrightarrow>
            retry_while sys exc_to_code a_func codes bs args kwargs deadline s =
              Some (Inl (RetryError
                     ''Exception occurred in retry method that was not classified as transient''
                     (Some e)),
                    w1, trace s @ [Call (timeout s), Failed e]))
       \<and> (time_time sys w < fl sys (time_time sys w + total_timeout sys bs)
            \<and> a_func args (fl sys (initial_rpc_timeout_millis bs / MILLIS_PER_SECOND)) kwargs w
                = Some (Inl e, w1) \<longrightarrow>
            retryable_inner sys exc_to_code a_func codes bs args kwargs w =
              Some (Inl (RetryError
                     ''Exception occurred in retry method that was not classified as transient''
                     (Some e)),
                    w1,
                    [Call (fl sys (initial_rpc_timeout_millis bs / MILLIS_PER_SECOND)),
                     Failed e]))"
proof -
  have pass: "retry_while sys exc_to_code a_func codes bs args kwargs deadline s =
              Some (Inl (RetryError
                     ''Exception occurred in retry method that was not classified as transient''
                     (Some e)),
                    w1, trace s @ [Call (timeout s), Failed e])"
    if "now s < deadline" and "a_func args (timeout s) kwargs (world s) = Some (Inl e, w1)"
    for s :: "('e, 'w) retry_state" and deadline
    using that assms
    by (subst retry_while.simps) (simp add: retry_body_def add_timeout_arg_def)
  have first: "retryable_inner sys exc_to_code a_func codes bs args kwargs w =
              Some (Inl (RetryError
                     ''Exception occurred in retry method that was not classified as transient''
                     (Some e)),
                    w1,
                    [Call (fl sys (initial_rpc_timeout_millis bs / MILLIS_PER_SECOND)),
                     Failed e])"
    if T: "time_time sys w < fl sys (time_time sys w + total_timeout sys bs)"
      and call: "a_func args (fl sys (initial_rpc_timeout_millis bs / MILLIS_PER_SECOND))
                   kwargs w = Some (Inl e, w1)"
  proof -
    define s0 :: "('e, 'w) retry_state" where "s0 = retry_start sys bs w"
    have "now s0 < fl sys (now s0 + total_timeout sys bs)"
      using T by (simp add: s0_def retry_start_def)
    moreover have "a_func args (timeout s0) kwargs (world s0) = Some (Inl e, w1)"
      using call by (simp add: s0_def retry_start_def)
    ultimately have "retry_while sys exc_to_code a_func codes bs args kwargs
        (fl sys (now s0 + total_timeout sys bs)) s0 =
      Some (Inl (RetryError
                     ''Exception occurred in retry method that was not classified as transient''
                     (Some e)),
                    w1, trace s0 @ [Call (timeout s0), Failed e])"
      by (rule pass)
    then show ?thesis
      by (simp add: retryable_inner_def Let_def s0_def retry_start_def)
  qed
  from pass first show ?thesis by blast
qed

text \<open>
  The theorem at a classifier that gives the error a code outside \<open>retry_codes\<close>: one
  attempt, no sleep, although six seconds are left.
\<close>

theorem retry_nonretryable_immediate_witness:
  "retryable_inner (clock_runtime 1) unavailable (failing_rpc 2) [False] backoff_100_2_400
       ([] :: unit list) () 0 =
   (Some (Inl (RetryError
                 ''Exception occurred in retry method that was not classified as transient''
                 (Some (Other ()))),
          2, [Call 1, Failed (Other ())]) :: (unit, unit, rat) finished option)"
proof -
  have inst: "is_Exception (Other ())" by simp
  have code: "unavailable (Other ()) \<notin> set [False]"
    by (simp add: unavailable_def)
  have first: "fl (clock_runtime 1)
      (initial_rpc_timeout_millis backoff_100_2_400 / MILLIS_PER_SECOND) = 1"
    by (simp add: backoff_100_2_400_def MILLIS_PER_SECOND_def clock_runtime_def)
  have T: "time_time (clock_runtime 1) 0
      < fl (clock_runtime 1) (time_time (clock_runtime 1) 0
          + total_timeout (clock_runtime 1) backoff_100_2_400)"
    by (simp add: total_timeout_def backoff_100_2_400_def MILLIS_PER_SECOND_def
        clock_runtime_def)
  have call: "(failing_rpc 2 :: (unit, unit, unit, unit, rat) rpc) []
      (fl (clock_runtime 1) (initial_rpc_timeout_millis backoff_100_2_400 / MILLIS_PER_SECOND))
      () 0 = Some (Inl (Other ()), 2)"
    by (simp add: failing_rpc_def)
  from retry_nonretryable_immediate[where exc_to_code = unavailable and e = "Other ()"
      and codes = "[False]" and a_func = "failing_rpc 2" and args = "[]" and kwargs = "()"
      and ?w1.0 = 2 and bs = backoff_100_2_400 and w = 0 and sys = "clock_runtime 1",
      OF inst code]
  have "time_time (clock_runtime 1) 0
          < fl (clock_runtime 1) (time_time (clock_runtime 1) 0
              + total_timeout (clock_runtime 1) backoff_100_2_400)
      \<and> (failing_rpc 2 :: (unit, unit, unit, unit, rat) rpc) []
           (fl (clock_runtime 1)
              (initial_rpc_timeout_millis backoff_100_2_400 / MILLIS_PER_SECOND)) () 0
          = Some (Inl (Other ()), 2) \<longrightarrow>
    retryable_inner (clock_runtime 1) unavailable (failing_rpc 2) [False] backoff_100_2_400
       ([] :: unit list) () 0 =
     (Some (Inl (RetryError
                 ''Exception occurred in retry method that was not classified as transient''
                 (Some (Other ()))),
          2, [Call (fl (clock_runtime 1)
                      (initial_rpc_timeout_millis backoff_100_2_400 / MILLIS_PER_SECOND)),
              Failed (Other ())]) :: (unit, unit, rat) finished option)"
    by (rule conjunct2)
  with T call
  have "retryable_inner (clock_runtime 1) unavailable (failing_rpc 2) [False] backoff_100_2_400
       ([] :: unit list) () 0 =
     (Some (Inl (RetryError
                 ''Exception occurred in retry method that was not classified as transient''
                 (Some (Other ()))),
          2, [Call (fl (clock_runtime 1)
                      (initial_rpc_timeout_millis backoff_100_2_400 / MILLIS_PER_SECOND)),
              Failed (Other ())]) :: (unit, unit, rat) finished option)"
    by blast
  then show ?thesis unfolding first .
qed

text \<open>
  What is raised but is not an instance of \<^verbatim>\<open>Exception\<close> is outside the handler of
  the loop, which is \<^verbatim>\<open>except Exception\<close>: a \<^verbatim>\<open>KeyboardInterrupt\<close> during the attempt
  leaves the retrying call as it is, neither classified nor wrapped in a \<^verbatim>\<open>RetryError\<close>.
\<close>

lemma retry_keyboard_interrupt_unwrapped:
  "retryable_inner (clock_runtime 1) unavailable (interrupted_rpc 2) [True] backoff_100_2_400
       ([] :: unit list) () 0 =
   (Some (Inl KeyboardInterrupt, 2, [Call 1, Failed KeyboardInterrupt])
      :: (unit, unit, rat) finished option)"
  by (simp add: run_simps interrupted_rpc_def backoff_100_2_400_def)

section \<open>Claims about the composition\<close>

text \<open>
  C3, as amended. The error-wrapping decorator is applied whenever neither page
  streaming nor bundling is configured, also when a retry policy wraps the call. For
  settings whose retry options have retry codes (and backoff settings):
  \<^verbatim>\<open>create_api_call\<close> returns the error-wrapping decorator applied to the retrying
  callable when there is no page descriptor and not both a bundler and a bundle
  descriptor. Otherwise it returns the bundling decorator or the page-streaming
  decorator applied to the retrying callable itself, with no error-wrapping layer, or
  fails because the settings are incompatible.
\<close>

theorem create_api_call_wraps_retry:
  assumes "retry settings = Some r" and "retry_codes r \<noteq> []"
    and "backoff_settings r = Some bs"
  shows "(page_descriptor settings = None \<and>
            (bundler settings = None \<or> bundle_descriptor settings = None) \<longrightarrow>
          create_api_call sys exc_to_code API_ERRORS func settings =
            Inr (Plain (catch_errors
                   (retryable_call sys exc_to_code func (retry_codes r) bs) API_ERRORS))) \<and>
         (\<forall>b d. page_descriptor settings = None \<and>
            bundler settings = Some b \<and> bundle_descriptor settings = Some d \<longrightarrow>
          create_api_call sys exc_to_code API_ERRORS func settings =
            Inr (Bundled (bundleable
                   (retryable_call sys exc_to_code func (retry_codes r) bs) d b))) \<and>
         (\<forall>pd. page_descriptor settings = Some pd \<and>
            (bundler settings = None \<or> bundle_descriptor settings = None) \<longrightarrow>
          create_api_call sys exc_to_code API_ERRORS func settings =
            Inr (page_streamable
                   (retryable_call sys exc_to_code func (retry_codes r) bs) pd
                   (page_token settings) (flatten_pages settings \<noteq> Some False))) \<and>
         (page_descriptor settings \<noteq> None \<and>
            bundler settings \<noteq> None \<and> bundle_descriptor settings \<noteq> None \<longrightarrow>
          create_api_call sys exc_to_code API_ERRORS func settings =
            Inl (ValueError
                   ''The API call has incompatible settings: bundling and page streaming''))"
proof -
  have stage: "timeout_or_retry sys exc_to_code func settings =
                 Inr (retryable_call sys exc_to_code func (retry_codes r) bs)"
    using assms by (simp add: timeout_or_retry_def retryable_def)
  have flat: "(case flatten_pages settings of None \<Rightarrow> True | Some f \<Rightarrow> f) =
                (flatten_pages settings \<noteq> Some False)"
    by (cases "flatten_pages settings") auto
  show ?thesis
    unfolding create_api_call_def stage
    by (auto simp: Let_def flat split: option.splits)
qed

text \<open>The theorem at settings that configure retrying and nothing else.\<close>

theorem create_api_call_wraps_retry_witness:
  "create_api_call (clock_runtime 0) unavailable (\<lambda>e. True) (failing_rpc 1)
       (retry_only (Some \<lparr>retry_codes = [True], backoff_settings = Some backoff_100_2_400\<rparr>)) =
     Inr (Plain (catch_errors
            (retryable_call (clock_runtime 0) unavailable (failing_rpc 1) [True]
               backoff_100_2_400)
            (\<lambda>e. True)))"
  using create_api_call_wraps_retry[of
      "retry_only (Some \<lparr>retry_codes = [True], backoff_settings = Some backoff_100_2_400\<rparr>)"
      "\<lparr>retry_codes = [True], backoff_settings = Some backoff_100_2_400\<rparr>"
      backoff_100_2_400 "clock_runtime 0" unavailable "\<lambda>e. True" "failing_rpc 1"]
  by (simp add: retry_only_def)

text \<open>
  C3 as stated has no failure of a retrying call pass through the error-wrapping layer.
  With retrying configured, an error the classifier does not find transient, and a set
  of recognised errors that every exception belongs to, the caller gets the
  \<^verbatim>\<open>GaxError\<close> of the error-wrapping layer, wrapped around the \<^verbatim>\<open>RetryError\<close>.
\<close>

theorem create_api_call_wraps_retry_counterexample:
  "(case create_api_call (clock_runtime 0) (\<lambda>e. False) (\<lambda>e. True) (failing_rpc 1)
           (retry_only (Some \<lparr>retry_codes = [True],
                               backoff_settings = Some backoff_100_2_400\<rparr>)) of
      Inr (Plain f) \<Rightarrow> f [Map.empty] () 0
    | _ \<Rightarrow> None) =
   Some (Inl (GaxError ''RPC failed''
           (Some (RetryError
              ''Exception occurred in retry method that was not classified as transient''
              (Some (Other ()))))), 1)"
  by (simp add: create_api_call_def timeout_or_retry_def retryable_def retryable_call_def
      retry_only_def catch_errors_def run_simps backoff_100_2_400_def)

text \<open>
  C8, as amended. For settings in which a page descriptor, a bundler and a bundle
  descriptor are all present, and whose retry options, when they have retry codes, also
  have backoff settings, \<^verbatim>\<open>create_api_call\<close> fails with the \<^verbatim>\<open>ValueError\<close> about
  incompatible settings. It does so when the call is composed: the result does not
  depend on the rpc, and composing takes no world to act on.
\<close>

theorem create_api_call_incompatible:
  assumes "page_descriptor settings = Some pd"
    and "bundler settings = Some b" and "bundle_descriptor settings = Some d"
    and "\<forall>r. retry settings = Some r \<longrightarrow> retry_codes r \<noteq> [] \<longrightarrow> backoff_settings r \<noteq> None"
  shows "create_api_call sys exc_to_code API_ERRORS func settings =
           Inl (ValueError ''The API call has incompatible settings: bundling and page streaming'')"
  using assms
  by (auto simp: create_api_call_def timeout_or_retry_def retryable_def split: option.splits)

theorem create_api_call_incompatible_witness:
  "create_api_call (clock_runtime 0) unavailable (\<lambda>e. False) (failing_rpc 1)
     (paged_and_bundled
        (Some \<lparr>retry_codes = [True], backoff_settings = Some backoff_100_2_400\<rparr>)) =
   Inl (ValueError ''The API call has incompatible settings: bundling and page streaming'')"
  by (rule create_api_call_incompatible[where pd = pages and b = echo_executor and d = by_topic])
     (simp_all add: paged_and_bundled_def)

text \<open>
  C8 as stated covers every such settings value. When the retry options have retry codes
  but no backoff settings (which \<^verbatim>\<open>_construct_retry\<close> builds for a method without
  \<^verbatim>\<open>retry_params_name\<close>), the retry decorator is applied first and raises
  \<^verbatim>\<open>AttributeError\<close> before the check for incompatible settings is reached.
\<close>

theorem create_api_call_incompatible_counterexample:
  "create_api_call (clock_runtime 0) unavailable (\<lambda>e. False) (failing_rpc 1)
     (paged_and_bundled (Some \<lparr>retry_codes = [True], backoff_settings = None\<rparr>)) =
   Inl AttributeError"
  by (simp add: create_api_call_def timeout_or_retry_def retryable_def paged_and_bundled_def)

section \<open>Claims about bundling and page streaming\<close>

text \<open>
  C9. Two requests with the same values in the descriptor's discriminator fields get the
  same bundle id, whatever their other fields, and the bundling decorator hands exactly
  that id to the executor's \<^verbatim>\<open>schedule\<close>, for either request.
\<close>

theorem bundleable_key_deterministic:
  assumes "\<forall>f \<in> set (request_discriminator_fields desc). request1 f = request2 f"
  shows "compute_bundle_id request1 (request_discriminator_fields desc) =
           compute_bundle_id request2 (request_discriminator_fields desc) \<and>
         bundleable a_func desc b (request1 # rest1) kwargs1 w1 =
           schedule b a_func (compute_bundle_id request1 (request_discriminator_fields desc))
             desc request1 kwargs1 w1 \<and>
         bundleable a_func desc b (request2 # rest2) kwargs2 w2 =
           schedule b a_func (compute_bundle_id request1 (request_discriminator_fields desc))
             desc request2 kwargs2 w2"
proof -
  have same: "compute_bundle_id request1 (request_discriminator_fields desc) =
           compute_bundle_id request2 (request_discriminator_fields desc)"
    using assms by (simp add: compute_bundle_id_def)
  show ?thesis
    using same by (simp add: bundleable_def Let_def)
qed

text \<open>
  Two requests for the same topic with different bodies, and an executor that answers
  with the id it was given.
\<close>

theorem bundleable_key_deterministic_witness:
  "bundleable (add_timeout_arg (failing_rpc 1) 30) by_topic echo_executor
       [[''topic'' \<mapsto> PStr ''news'', ''body'' \<mapsto> PStr ''first'']] () 0 =
     Some (Inr [Some (PStr ''news'')], 0) \<and>
   bundleable (add_timeout_arg (failing_rpc 1) 30) by_topic echo_executor
       [[''topic'' \<mapsto> PStr ''news'', ''body'' \<mapsto> PStr ''second'']] () 0 =
     Some (Inr [Some (PStr ''news'')], 0)"
  using bundleable_key_deterministic[of by_topic
      "[''topic'' \<mapsto> PStr ''news'', ''body'' \<mapsto> PStr ''first'']"
      "[''topic'' \<mapsto> PStr ''news'', ''body'' \<mapsto> PStr ''second'']"
      "add_timeout_arg (failing_rpc 1) 30" echo_executor "[]" "()" 0 "[]" "()" 0]
  by (simp add: by_topic_def echo_executor_def compute_bundle_id_def)

text \<open>
  C4. Three responses whose resource collections have two, two and one element, the
  first two with a non-empty token and the third with an empty one. The list below
  gives, for a consumer that stops after 0, 1, ..., 7 calls of \<^verbatim>\<open>next()\<close>, what it
  was given and which requests the underlying callable had received by then. Before the
  first \<^verbatim>\<open>next()\<close> there is no call; a page is fetched only when an element of it is
  asked for; the five elements come in the order of the pages; after them the generator
  is exhausted, and the callable has been invoked three times, with the request, then
  with the request carrying the first token, then the second.
\<close>

theorem flattened_three_pages:
  assumes p1: "r1 (resource_field pd) = Some (PList [a, b])"
    and t1: "r1 (response_page_token_field pd) = Some t1" "truthy t1"
    and p2: "r2 (resource_field pd) = Some (PList [c, d])"
    and t2: "r2 (response_page_token_field pd) = Some t2" "truthy t2"
    and p3: "r3 (resource_field pd) = Some (PList [e])"
    and t3: "r3 (response_page_token_field pd) = Some t3" "\<not> truthy t3"
  shows "map (\<lambda>n. map_option (\<lambda>(ps, g, w). (ps, snd w))
                 (pulls n (flattened scripted pd [request] kwargs) ([r1, r2, r3], [])))
             [0, 1, 2, 3, 4, 5, 6, 7]
         = [Some ([], []),
            Some ([Yield a], [request]),
            Some ([Yield a, Yield b], [request]),
            Some ([Yield a, Yield b, Yield c],
                  [request, request(request_page_token_field pd \<mapsto> t1)]),
            Some ([Yield a, Yield b, Yield c, Yield d],
                  [request, request(request_page_token_field pd \<mapsto> t1)]),
            Some ([Yield a, Yield b, Yield c, Yield d, Yield e],
                  [request, request(request_page_token_field pd \<mapsto> t1),
                   request(request_page_token_field pd \<mapsto> t2)]),
            Some ([Yield a, Yield b, Yield c, Yield d, Yield e, StopIteration],
                  [request, request(request_page_token_field pd \<mapsto> t1),
                   request(request_page_token_field pd \<mapsto> t2)]),
            Some ([Yield a, Yield b, Yield c, Yield d, Yield e, StopIteration, StopIteration],
                  [request, request(request_page_token_field pd \<mapsto> t1),
                   request(request_page_token_field pd \<mapsto> t2)])]"
  using assms
  by (simp add: eval_nat_numeral gen_next_def flattened_def flattened_next.simps scripted_def)

theorem flattened_three_pages_witness:
  "map (\<lambda>n. map_option (\<lambda>(ps, g, w). (ps, snd w))
              (pulls n (flattened scripted pages [[''parent'' \<mapsto> PStr ''shelf'']] ())
                 ([page1, page2, page3], [])))
       [0, 1, 2, 3, 4, 5, 6, 7]
   = [Some ([], []),
      Some ([Yield (PStr ''a'')], [[''parent'' \<mapsto> PStr ''shelf'']]),
      Some ([Yield (PStr ''a''), Yield (PStr ''b'')], [[''parent'' \<mapsto> PStr ''shelf'']]),
      Some ([Yield (PStr ''a''), Yield (PStr ''b''), Yield (PStr ''c'')],
            [[''parent'' \<mapsto> PStr ''shelf''],
             [''parent'' \<mapsto> PStr ''shelf''](request_page_token_field pages \<mapsto> PStr ''t1'')]),
      Some ([Yield (PStr ''a''), Yield (PStr ''b''), Yield (PStr ''c''), Yield (PStr ''d'')],
            [[''parent'' \<mapsto> PStr ''shelf''],
             [''parent'' \<mapsto> PStr ''shelf''](request_page_token_field pages \<mapsto> PStr ''t1'')]),
      Some ([Yield (PStr ''a''), Yield (PStr ''b''), Yield (PStr ''c''), Yield (PStr ''d''),
             Yield (PStr ''e'')],
            [[''parent'' \<mapsto> PStr ''shelf''],
             [''parent'' \<mapsto> PStr ''shelf''](request_page_token_field pages \<mapsto> PStr ''t1''),
             [''parent'' \<mapsto> PStr ''shelf''](request_page_token_field pages \<mapsto> PStr ''t2'')]),
      Some ([Yield (PStr ''a''), Yield (PStr ''b''), Yield (PStr ''c''), Yield (PStr ''d''),
             Yield (PStr ''e''), StopIteration],
            [[''parent'' \<mapsto> PStr ''shelf''],
             [''parent'' \<mapsto> PStr ''shelf''](request_page_token_field pages \<mapsto> PStr ''t1''),
             [''parent'' \<mapsto> PStr ''shelf''](request_page_token_field pages \<mapsto> PStr ''t2'')]),
      Some ([Yield (PStr ''a''), Yield (PStr ''b''), Yield (PStr ''c''), Yield (PStr ''d''),
             Yield (PStr ''e''), StopIteration, StopIteration],
            [[''parent'' \<mapsto> PStr ''shelf''],
             [''parent'' \<mapsto> PStr ''shelf''](request_page_token_field pages \<mapsto> PStr ''t1''),
             [''parent'' \<mapsto> PStr ''shelf''](request_page_token_field pages \<mapsto> PStr ''t2'')])]"
proof -
  have pre:
    "page1 (resource_field pages) = Some (PList [PStr ''a'', PStr ''b''])"
    "page1 (response_page_token_field pages) = Some (PStr ''t1'')" "truthy (PStr ''t1'')"
    "page2 (resource_field pages) = Some (PList [PStr ''c'', PStr ''d''])"
    "page2 (response_page_token_field pages) = Some (PStr ''t2'')" "truthy (PStr ''t2'')"
    "page3 (resource_field pages) = Some (PList [PStr ''e''])"
    "page3 (response_page_token_field pages) = Some (PStr [])" "\<not> truthy (PStr [])"
    by (simp_all add: page1_def page2_def page3_def pages_def)
  show ?thesis
    by (rule flattened_three_pages[OF pre])
qed

text \<open>
  C10. Let \<open>api_call\<close> be the callable that the settings' timeout or retry options make
  of the rpc, and let page streaming be configured without bundling. When
  \<open>flatten_pages\<close> is true or unset, \<^verbatim>\<open>create_api_call\<close> returns the generator function
  over \<open>api_call\<close> and the page descriptor, in which the page token of the settings
  does not occur, and the first thing the generator does is to call \<open>api_call\<close> with the
  caller's request as it was given. When \<open>flatten_pages\<close> is false, it returns the
  function that builds a \<^verbatim>\<open>PageIterator\<close> from \<open>api_call\<close>, the page descriptor, the
  page token of the settings, the request and the keyword arguments.
\<close>

theorem page_token_only_unflattened:
  assumes "page_descriptor settings = Some pd"
    and "bundler settings = None \<or> bundle_descriptor settings = None"
    and "timeout_or_retry sys exc_to_code func settings = Inr api_call"
  shows "(flatten_pages settings \<noteq> Some False \<longrightarrow>
            create_api_call sys exc_to_code API_ERRORS func settings =
              Inr (Flattened (flattened api_call pd))) \<and>
         (flatten_pages settings = Some False \<longrightarrow>
            create_api_call sys exc_to_code API_ERRORS func settings =
              Inr (Unflattened (unflattened api_call pd (page_token settings)))) \<and>
         flattened_next api_call pd
             (gen_state (flattened api_call pd (request # rest) kwargs)) w =
           (case api_call [request] kwargs w of
              None \<Rightarrow> None
            | Some (Inl e, w') \<Rightarrow> Some (Raised e, Closed, w')
            | Some (Inr response, w') \<Rightarrow>
                (case response (resource_field pd) of
                   None \<Rightarrow> Some (Raised AttributeError, Closed, w')
                 | Some v \<Rightarrow>
                     (case iterate v of
                        None \<Rightarrow> Some (Raised TypeError, Closed, w')
                      | Some objs \<Rightarrow>
                          flattened_next api_call pd
                            (InFor request response kwargs objs) w'))) \<and>
         unflattened api_call pd (page_token settings) (request # rest) kwargs =
           Inr \<lparr>pi_func = api_call, pi_descriptor = pd,
                pi_page_token = page_token settings,
                pi_request = request, pi_kwargs = kwargs\<rparr>"
proof -
  have first:
    "flattened_next api_call pd (gen_state (flattened api_call pd (request # rest) kwargs)) w =
     (case api_call [request] kwargs w of
        None \<Rightarrow> None
      | Some (Inl e, w') \<Rightarrow> Some (Raised e, Closed, w')
      | Some (Inr response, w') \<Rightarrow>
          (case response (resource_field pd) of
             None \<Rightarrow> Some (Raised AttributeError, Closed, w')
           | Some v \<Rightarrow>
               (case iterate v of
                  None \<Rightarrow> Some (Raised TypeError, Closed, w')
                | Some objs \<Rightarrow>
                    flattened_next api_call pd (InFor request response kwargs objs) w')))"
    apply (simp add: flattened_def)
    apply (subst flattened_next.simps)
    apply simp
    apply (subst flattened_next.simps)
    apply simp
    done
  have flat: "create_api_call sys exc_to_code API_ERRORS func settings =
              Inr (Flattened (flattened api_call pd))"
    if "flatten_pages settings \<noteq> Some False"
    using that assms
    by (cases "flatten_pages settings")
       (auto simp: create_api_call_def page_streamable_def Let_def)
  have unflat: "create_api_call sys exc_to_code API_ERRORS func settings =
              Inr (Unflattened (unflattened api_call pd (page_token settings)))"
    if "flatten_pages settings = Some False"
    using that assms
    by (auto simp: create_api_call_def page_streamable_def Let_def)
  have iter: "unflattened api_call pd (page_token settings) (request # rest) kwargs =
           Inr \<lparr>pi_func = api_call, pi_descriptor = pd,
                pi_page_token = page_token settings,
                pi_request = request, pi_kwargs = kwargs\<rparr>"
    by (simp add: unflattened_def)
  from flat unflat first iter show ?thesis by blast
qed

text \<open>
  The theorem at settings with a page descriptor and the page token \<open>t0\<close>, once with
  \<open>flatten_pages\<close> false and once with it true.
\<close>

theorem page_token_only_unflattened_witness:
  "create_api_call (clock_runtime 0) unavailable (\<lambda>e. False) (failing_rpc 1)
       (paged_only (Some (PStr ''t0'')) (Some False)) =
     Inr (Unflattened (unflattened (add_timeout_arg (failing_rpc 1) 30) pages
            (Some (PStr ''t0'')))) \<and>
   create_api_call (clock_runtime 0) unavailable (\<lambda>e. False) (failing_rpc 1)
       (paged_only (Some (PStr ''t0'')) (Some True)) =
     Inr (Flattened (flattened (add_timeout_arg (failing_rpc 1) 30) pages))"
proof -
  have stage: "timeout_or_retry (clock_runtime 0) unavailable (failing_rpc 1)
                 (paged_only (Some (PStr ''t0'')) flat) =
               Inr (add_timeout_arg (failing_rpc 1) 30)" for flat
    by (simp add: timeout_or_retry_def paged_only_def)
  have pd: "page_descriptor (paged_only (Some (PStr ''t0'')) flat) = Some pages"
    and nb: "bundler (paged_only (Some (PStr ''t0'')) flat) = None
               \<or> bundle_descriptor (paged_only (Some (PStr ''t0'')) flat) = None" for flat
    by (simp_all add: paged_only_def)
  from page_token_only_unflattened[OF pd nb stage, of "Some False" "\<lambda>e. False"]
  have a: "create_api_call (clock_runtime 0) unavailable (\<lambda>e. False) (failing_rpc 1)
       (paged_only (Some (PStr ''t0'')) (Some False)) =
     Inr (Unflattened (unflattened (add_timeout_arg (failing_rpc 1) 30) pages
            (Some (PStr ''t0''))))"
    by (simp add: paged_only_def)
  from page_token_only_unflattened[OF pd nb stage, of "Some True" "\<lambda>e. False"]
  have b: "create_api_call (clock_runtime 0) unavailable (\<lambda>e. False) (failing_rpc 1)
       (paged_only (Some (PStr ''t0'')) (Some True)) =
     Inr (Flattened (flattened (add_timeout_arg (failing_rpc 1) 30) pages))"
    by (simp add: paged_only_def)
  from a b show ?thesis by simp
qed

end
